theory Spec2Isabelle
  imports Main
begin

section \<open>JavaScript values, strings and errors\<close>

text \<open>
  Strings are lists of code units; the model keeps to the code units below 256 (Latin-1),
  which is what \<^typ>\<open>char\<close> holds. A number is a safe integer (of magnitude at most
  \<open>2^53 - 1\<close>): these are the numbers that \<open>String(n)\<close> prints as the decimal numeral of
  \<open>n\<close>; fractions and larger numbers are outside the model. \<open>num i\<close> is the number
  \<open>i\<close> (and \<open>0\<close> for an \<open>i\<close> outside the range).
\<close>

typedef safe_int = "{i :: int. - 9007199254740991 \<le> i \<and> i \<le> 9007199254740991}"
  by (rule exI [of _ 0]) simp

setup_lifting type_definition_safe_int

lift_definition num :: "int \<Rightarrow> safe_int"
  is "\<lambda>i. if - 9007199254740991 \<le> i \<and> i \<le> 9007199254740991 then i else 0"
  by simp

text \<open>
  The values the SDK receives from the server and from the host application.
  \<open>undefined\<close> is a value of its own: a property can hold it. An array is the list of
  its elements. An object is the list of its own enumerable string-keyed properties, in
  the order in which they were created (for an object read from JSON text: the order in
  which the text declares them); its prototype is \<open>Object.prototype\<close>. Functions are not
  among the values, so a property named \<open>toString\<close> or \<open>toLowerCase\<close> that an object
  holds itself is never callable.
\<close>

datatype jsval =
    JUndefined
  | JNull
  | JBool bool
  | JNum safe_int
  | JStr string
  | JArr "jsval list"
  | JObj "(string \<times> jsval) list"

text \<open>The error classes of \<open>utils/errors.ts\<close>; \<open>NativeError\<close> for an \<open>Error\<close> thrown
  by code outside the SDK (the persistent store, a subscriber callback); and \<open>TypeError\<close>
  for a \<open>TypeError\<close> raised by the engine, whose message is the engine's own.\<close>

datatype js_error =
    ChatException string
  | ChatApiException string safe_int
  | UploadCancelledException string
  | NativeError string
  | TypeError

text \<open>\<open>String(e)\<close> for a \<open>TypeError\<close> of the engine starts with \<open>TypeError\<close> and goes on
  with the engine's wording, which is left out.\<close>

definition TypeError_text :: string where
  "TypeError_text = ''TypeError''"

subsection \<open>String primitives\<close>

definition digit_char :: "nat \<Rightarrow> char" where
  "digit_char d = char_of (48 + d)"

fun digits :: "nat \<Rightarrow> string" where
  "digits n = (if n < 10 then [digit_char n] else digits (n div 10) @ [digit_char (n mod 10)])"

declare digits.simps [simp del]

definition int_str :: "int \<Rightarrow> string" where
  "int_str i = (if i < 0 then CHR ''-'' # digits (nat (- i)) else digits (nat i))"

text \<open>\<open>String(n)\<close> for a number.\<close>

definition number_str :: "safe_int \<Rightarrow> string" where
  "number_str n = int_str (Rep_safe_int n)"

text \<open>\<open>Array.prototype.join\<close> on already converted elements.\<close>

fun join :: "string \<Rightarrow> string list \<Rightarrow> string" where
  "join sep [] = []"
| "join sep [x] = x"
| "join sep (x # y # ys) = x @ sep @ join sep (y # ys)"

text \<open>\<open>v == null\<close>\<close>

fun is_nullish :: "jsval \<Rightarrow> bool" where
  "is_nullish JUndefined = True"
| "is_nullish JNull = True"
| "is_nullish v = False"

text \<open>
  \<open>String(value)\<close>, also the conversion of \<open>`${value}`\<close>; \<open>None\<close> when it throws a
  \<open>TypeError\<close>. An array is its elements joined by a comma, with \<open>null\<close> and
  \<open>undefined\<close> elements rendered empty. An object is converted by its \<open>toString\<close>
  method: the inherited one gives \<open>[object Object]\<close>; when the object holds a property
  \<open>toString\<close> itself, that property is not a function, the inherited \<open>valueOf\<close> (or an
  own one, not a function either) yields no primitive, and the conversion throws.
  \<open>new Date(value)\<close> converts an object to a primitive in the other order (\<open>valueOf\<close>
  first), and throws for the same values.
\<close>

fun js_String :: "jsval \<Rightarrow> string option" where
  "js_String JUndefined = Some ''undefined''"
| "js_String JNull = Some ''null''"
| "js_String (JBool b) = Some (if b then ''true'' else ''false'')"
| "js_String (JNum n) = Some (number_str n)"
| "js_String (JStr s) = Some s"
| "js_String (JArr xs) =
     map_option (join '','')
       (those (map (\<lambda>v. if is_nullish v then Some [] else js_String v) xs))"
| "js_String (JObj kvs) =
     (if ''toString'' \<in> set (map fst kvs) then None else Some ''[object Object]'')"

definition ToString :: "jsval \<Rightarrow> js_error + string" where
  "ToString v = (case js_String v of None \<Rightarrow> Inl TypeError | Some s \<Rightarrow> Inr s)"

text \<open>The white space and line terminators that \<open>String.prototype.trim\<close> strips, among
  the code units below 256: TAB, LF, VT, FF, CR, SPACE and NBSP.\<close>

definition is_ws :: "char \<Rightarrow> bool" where
  "is_ws c = (of_char c \<in> {9, 10, 11, 12, 13, 32, 160 :: nat})"

definition trim :: "string \<Rightarrow> string" where
  "trim s = rev (dropWhile is_ws (rev (dropWhile is_ws s)))"

text \<open>\<open>String.prototype.toLowerCase\<close> on Latin-1 code units: A-Z and the accented
  capitals 0xC0-0xDE (without the multiplication sign 0xD7) move up by 32.\<close>

definition lower_char :: "char \<Rightarrow> char" where
  "lower_char c =
     (let n = (of_char c :: nat)
      in if (65 \<le> n \<and> n \<le> 90) \<or> (192 \<le> n \<and> n \<le> 214) \<or> (216 \<le> n \<and> n \<le> 222)
         then char_of (n + 32) else c)"

definition toLowerCase :: "string \<Rightarrow> string" where
  "toLowerCase s = map lower_char s"

text \<open>Truthiness of a value (\<open>if (v)\<close>): \<open>undefined\<close>, \<open>null\<close>, \<open>false\<close>, \<open>0\<close> and
  the empty string are falsy.\<close>

fun truthy :: "jsval \<Rightarrow> bool" where
  "truthy JUndefined = False"
| "truthy JNull = False"
| "truthy (JBool b) = b"
| "truthy (JNum n) = (Rep_safe_int n \<noteq> 0)"
| "truthy (JStr s) = (s \<noteq> [])"
| "truthy (JArr xs) = True"
| "truthy (JObj kvs) = True"

text \<open>The property \<open>k\<close> that a value holds itself. It is what \<open>obj[k]\<close> reads for the
  keys that no prototype defines (\<open>error\<close>, \<open>errors\<close>, \<open>message\<close>, \<open>browser_key\<close>,
  \<open>isTyping\<close>, \<open>image_url\<close> and the fields of a message); \<open>None\<close> reads as
  \<open>undefined\<close>.\<close>

fun get_prop :: "jsval \<Rightarrow> string \<Rightarrow> jsval option" where
  "get_prop (JObj kvs) k = map_of kvs k"
| "get_prop v k = None"

definition read_prop :: "jsval \<Rightarrow> string \<Rightarrow> jsval" where
  "read_prop v k = (case get_prop v k of None \<Rightarrow> JUndefined | Some x \<Rightarrow> x)"

text \<open>\<open>obj[k] = v\<close>, and \<open>{...obj, k: v}\<close>: an existing property keeps its place.\<close>

fun obj_set :: "string \<Rightarrow> 'a \<Rightarrow> (string \<times> 'a) list \<Rightarrow> (string \<times> 'a) list" where
  "obj_set k v [] = [(k, v)]"
| "obj_set k v ((k', v') # kvs) = (if k' = k then (k, v) # kvs else (k', v') # obj_set k v kvs)"

subsection \<open>The order in which an object's properties are enumerated\<close>

text \<open>
  \<open>Object.entries\<close>, \<open>Object.values\<close> and \<open>Object.keys\<close> list the properties whose key
  is an array index first, in ascending numeric order, and then the other properties in
  the order of their creation. An array index is the decimal numeral, without leading
  zeros, of a number below \<open>2^32 - 1\<close>.
\<close>

definition is_digit :: "char \<Rightarrow> bool" where
  "is_digit c = (48 \<le> (of_char c :: nat) \<and> (of_char c :: nat) \<le> 57)"

definition str_nat :: "string \<Rightarrow> nat" where
  "str_nat s = foldl (\<lambda>a c. 10 * a + (of_char c - 48)) 0 s"

definition is_array_index :: "string \<Rightarrow> bool" where
  "is_array_index k =
     (k \<noteq> [] \<and> list_all is_digit k \<and> (k = ''0'' \<or> hd k \<noteq> CHR ''0'') \<and> length k \<le> 10
      \<and> int (str_nat k) < 4294967295)"

definition Object_entries :: "(string \<times> 'a) list \<Rightarrow> (string \<times> 'a) list" where
  "Object_entries kvs =
     sort_key (\<lambda>kv. str_nat (fst kv)) (filter (\<lambda>kv. is_array_index (fst kv)) kvs)
     @ filter (\<lambda>kv. \<not> is_array_index (fst kv)) kvs"


section \<open>Messages (\<open>types/message.ts\<close>)\<close>

text \<open>\<open>MessageType\<close> is the string union \<open>'user' | 'admin' | 'ai' | 'system'\<close>.\<close>

definition MessageTypes :: "string list" where
  "MessageTypes = [''user'', ''admin'', ''ai'', ''system'']"

text \<open>\<open>value?.toLowerCase()\<close> is \<open>undefined\<close> for an undefined value, which takes the
  \<open>default\<close> branch of the switch.\<close>

definition parseMessageType :: "string option \<Rightarrow> string" where
  "parseMessageType v =
     (case map_option toLowerCase v of
        None \<Rightarrow> ''user''
      | Some s \<Rightarrow>
          if s = ''user'' then ''user''
          else if s = ''admin'' then ''admin''
          else if s = ''ai'' then ''ai''
          else if s = ''system'' then ''system''
          else ''user'')"

text \<open>A \<open>Date\<close> is kept as the text it was built from; \<open>new Date()\<close> is the current time.\<close>

datatype js_date = DateOf string | DateNow

text \<open>The JSON of one message whose fields have the types that the casts of
  \<open>parseChatMessage\<close> declare; a field that is absent or \<open>null\<close> is \<open>None\<close>. The
  casts are not checked at run time: \<open>parseChatMessage_any\<close> below is the same function
  on a payload of any shape.\<close>

record message_json =
  j_id :: "int option"
  j_chat_id :: "int option"
  j_content :: "string option"
  j_type :: "string option"
  j_sender_name :: "string option"
  j_sender_type :: "string option"
  j_created_at :: "string option"
  j_updated_at :: "string option"
  j_is_read :: "bool option"
  j_read_at :: "string option"
  j_metadata :: "jsval option"

record ChatMessage =
  msg_id :: int
  msg_chatId :: int
  msg_content :: string
  msg_type :: string
  msg_senderName :: "string option"
  msg_senderType :: "string option"
  msg_createdAt :: js_date
  msg_updatedAt :: "js_date option"
  msg_isRead :: bool
  msg_readAt :: "js_date option"
  msg_metadata :: "jsval option"

text \<open>\<open>x ?? d\<close>\<close>

definition nullish :: "'a option \<Rightarrow> 'a \<Rightarrow> 'a" where
  "nullish x d = (case x of None \<Rightarrow> d | Some v \<Rightarrow> v)"

text \<open>\<open>s ? new Date(s) : undefined\<close>: the empty string is falsy.\<close>

definition date_if :: "string option \<Rightarrow> js_date option" where
  "date_if s = (case s of None \<Rightarrow> None | Some t \<Rightarrow> if t = [] then None else Some (DateOf t))"

definition parseChatMessage :: "message_json \<Rightarrow> ChatMessage" where
  "parseChatMessage json =
     \<lparr> msg_id = nullish (j_id json) 0,
       msg_chatId = nullish (j_chat_id json) 0,
       msg_content = nullish (j_content json) [],
       msg_type = parseMessageType (j_type json),
       msg_senderName = j_sender_name json,
       msg_senderType = j_sender_type json,
       msg_createdAt = nullish (date_if (j_created_at json)) DateNow,
       msg_updatedAt = date_if (j_updated_at json),
       msg_isRead = nullish (j_is_read json) False,
       msg_readAt = date_if (j_read_at json),
       msg_metadata = j_metadata json \<rparr>"

record PaginatedMessages =
  messages :: "ChatMessage list"
  total :: int
  currentPage :: int
  perPage :: int
  lastPage :: int
  hasMore :: bool

record paginated_json =
  j_messages :: "message_json list option"
  j_total :: "int option"
  j_current_page :: "int option"
  j_per_page :: "int option"
  j_last_page :: "int option"

definition parsePaginatedMessages :: "paginated_json \<Rightarrow> PaginatedMessages" where
  "parsePaginatedMessages json =
     (let messagesData = nullish (j_messages json) [];
          msgs = map parseChatMessage messagesData;
          tot = nullish (j_total json) 0;
          cur = nullish (j_current_page json) 1;
          per = nullish (j_per_page json) 20;
          lst = nullish (j_last_page json) 1
      in \<lparr> messages = msgs, total = tot, currentPage = cur, perPage = per,
           lastPage = lst, hasMore = (cur < lst) \<rparr>)"

text \<open>\<open>createEmptyPaginatedMessages(perPage = 20)\<close> of \<open>types/index.ts\<close>; the default
  applies when the argument is left out.\<close>

definition createEmptyPaginatedMessages :: "int option \<Rightarrow> PaginatedMessages" where
  "createEmptyPaginatedMessages perPageArg =
     \<lparr> messages = [], total = 0, currentPage = 1, perPage = nullish perPageArg 20,
       lastPage = 1, hasMore = False \<rparr>"


subsection \<open>Payloads of any shape\<close>

text \<open>
  \<open>parseMessageType\<close> on whatever value the payload holds under \<open>type\<close> (the cast
  \<open>json.type as string\<close> checks nothing). \<open>value?.toLowerCase()\<close> is \<open>undefined\<close> for
  \<open>undefined\<close> and for \<open>null\<close>; on a string it is the lower-cased string; every other
  value has no method \<open>toLowerCase\<close>, and the call throws a \<open>TypeError\<close>.
\<close>

fun parseMessageType_any :: "jsval \<Rightarrow> js_error + string" where
  "parseMessageType_any JUndefined = Inr (parseMessageType None)"
| "parseMessageType_any JNull = Inr (parseMessageType None)"
| "parseMessageType_any (JStr s) = Inr (parseMessageType (Some s))"
| "parseMessageType_any v = Inl TypeError"

text \<open>A \<open>Date\<close> built from any value: \<open>new Date(v)\<close> throws when \<open>v\<close> has no
  primitive value.\<close>

datatype wire_date = DateFrom jsval | DateCurrent

definition new_Date :: "jsval \<Rightarrow> js_error + wire_date" where
  "new_Date v = (case js_String v of None \<Rightarrow> Inl TypeError | Some text \<Rightarrow> Inr (DateFrom v))"

text \<open>\<open>v ? new Date(v) : undefined\<close>\<close>

definition date_if_any :: "jsval \<Rightarrow> js_error + wire_date option" where
  "date_if_any v =
     (if truthy v then (case new_Date v of Inl e \<Rightarrow> Inl e | Inr d \<Rightarrow> Inr (Some d)) else Inr None)"

text \<open>\<open>x ?? d\<close> on values.\<close>

definition nullish_or :: "jsval \<Rightarrow> jsval \<Rightarrow> jsval" where
  "nullish_or x d = (if is_nullish x then d else x)"

text \<open>The message as \<open>parseChatMessage\<close> builds it from a payload of any shape: the
  fields hold what the payload holds, whatever its type; only \<open>type\<close> is computed.\<close>

record wire_message =
  wm_id :: jsval
  wm_chatId :: jsval
  wm_content :: jsval
  wm_type :: string
  wm_senderName :: jsval
  wm_senderType :: jsval
  wm_createdAt :: wire_date
  wm_updatedAt :: "wire_date option"
  wm_isRead :: jsval
  wm_readAt :: "wire_date option"
  wm_metadata :: jsval

text \<open>Reading a property of \<open>undefined\<close> or \<open>null\<close> throws a \<open>TypeError\<close>; every
  exception that the construction can throw is a \<open>TypeError\<close>.\<close>

definition parseChatMessage_any :: "jsval \<Rightarrow> js_error + wire_message" where
  "parseChatMessage_any json =
     (if is_nullish json then Inl TypeError
      else
        (case parseMessageType_any (read_prop json ''type'') of
           Inl e \<Rightarrow> Inl e
         | Inr ty \<Rightarrow>
             (case date_if_any (read_prop json ''created_at'') of
                Inl e \<Rightarrow> Inl e
              | Inr created \<Rightarrow>
                  (case date_if_any (read_prop json ''updated_at'') of
                     Inl e \<Rightarrow> Inl e
                   | Inr updated \<Rightarrow>
                       (case date_if_any (read_prop json ''read_at'') of
                          Inl e \<Rightarrow> Inl e
                        | Inr read_at \<Rightarrow>
                            Inr \<lparr> wm_id = nullish_or (read_prop json ''id'') (JNum (num 0)),
                                  wm_chatId = nullish_or (read_prop json ''chat_id'') (JNum (num 0)),
                                  wm_content = nullish_or (read_prop json ''content'') (JStr []),
                                  wm_type = ty,
                                  wm_senderName = read_prop json ''sender_name'',
                                  wm_senderType = read_prop json ''sender_type'',
                                  wm_createdAt = (case created of None \<Rightarrow> DateCurrent | Some d \<Rightarrow> d),
                                  wm_updatedAt = updated,
                                  wm_isRead = nullish_or (read_prop json ''is_read'') (JBool False),
                                  wm_readAt = read_at,
                                  wm_metadata = read_prop json ''metadata'' \<rparr>)))))"

section \<open>The HTTP client (\<open>services/api.service.ts\<close>)\<close>

text \<open>What a request can throw: an axios error, with the response when one was received,
  or anything else, kept as its \<open>String(error)\<close> text. A response body is any value, or
  nothing.\<close>

record axios_response =
  resp_status :: safe_int
  resp_data :: "jsval option"

datatype thrown = AxiosError "axios_response option" | Thrown string

text \<open>\<open>typeof v === 'object'\<close>\<close>

fun is_object :: "jsval \<Rightarrow> bool" where
  "is_object JNull = True"
| "is_object (JArr xs) = True"
| "is_object (JObj kvs) = True"
| "is_object v = False"

text \<open>\<open>Object.values(v)\<close> for an object or an array, \<open>xs.flat()\<close> (one level) and
  \<open>xs.join(sep)\<close> on values: \<open>join\<close> renders \<open>null\<close> and \<open>undefined\<close> empty and
  converts the other elements as \<open>String\<close> does, so it throws when one of them cannot be
  converted.\<close>

fun object_values :: "jsval \<Rightarrow> jsval list" where
  "object_values (JObj kvs) = map snd (Object_entries kvs)"
| "object_values (JArr xs) = xs"
| "object_values v = []"

definition flat :: "jsval list \<Rightarrow> jsval list" where
  "flat vs = concat (map (\<lambda>v. case v of JArr xs \<Rightarrow> xs | _ \<Rightarrow> [v]) vs)"

definition join_values :: "string \<Rightarrow> jsval list \<Rightarrow> js_error + string" where
  "join_values sep vs =
     (case those (map (\<lambda>v. if is_nullish v then Some [] else js_String v) vs) of
        None \<Rightarrow> Inl TypeError
      | Some texts \<Rightarrow> Inr (join sep texts))"

text \<open>\<open>data.k\<close> when it is truthy, as the tests \<open>if (data.k)\<close> of \<open>parseError\<close> read it.\<close>

definition truthy_prop :: "jsval \<Rightarrow> string \<Rightarrow> jsval option" where
  "truthy_prop d k =
     (case get_prop d k of None \<Rightarrow> None | Some v \<Rightarrow> if truthy v then Some v else None)"

definition status_fallback :: "axios_response option \<Rightarrow> string" where
  "status_fallback response =
     ''Request failed with status '' @
       (case response of None \<Rightarrow> ''unknown'' | Some r \<Rightarrow> number_str (resp_status r))"

text \<open>\<open>parseError\<close> returns the message, or throws the \<open>TypeError\<close> of a conversion
  that fails.\<close>

definition parseError :: "thrown \<Rightarrow> js_error + string" where
  "parseError error =
     (case error of
        Thrown text \<Rightarrow> Inr text
      | AxiosError response \<Rightarrow>
          (case (case response of None \<Rightarrow> None | Some r \<Rightarrow> resp_data r) of
             None \<Rightarrow> Inr (status_fallback response)
           | Some d \<Rightarrow>
               if \<not> truthy d then Inr (status_fallback response)
               else (case truthy_prop d ''error'' of
                       Some e \<Rightarrow> ToString e
                     | None \<Rightarrow>
                         (case (case truthy_prop d ''errors'' of
                                  None \<Rightarrow> None
                                | Some es \<Rightarrow> if is_object es then Some es else None) of
                            Some es \<Rightarrow> join_values '', '' (flat (object_values es))
                          | None \<Rightarrow>
                              (case truthy_prop d ''message'' of
                                 Some m \<Rightarrow> ToString m
                               | None \<Rightarrow> Inr (status_fallback response))))))"

text \<open>The \<open>catch\<close> block shared by the request methods: it throws a
  \<open>ChatApiException\<close> with the parsed message, unless parsing the message throws.\<close>

definition statusCode :: "thrown \<Rightarrow> safe_int" where
  "statusCode error =
     (case error of AxiosError (Some r) \<Rightarrow> resp_status r | _ \<Rightarrow> num 0)"

definition api_exception :: "thrown \<Rightarrow> js_error" where
  "api_exception error =
     (case parseError error of
        Inl e \<Rightarrow> e
      | Inr message \<Rightarrow> ChatApiException message (statusCode error))"

text \<open>The remote configuration, as \<open>parseChatAppRemoteConfig\<close> returns it;
  \<open>requiredFields\<close> is an object, given by its properties in the order of their
  creation.\<close>

record ChatAppRemoteConfig =
  appName :: string
  isActive :: bool
  settings :: "(string \<times> jsval) list"
  requiredFields :: "(string \<times> string) list"
  socketUrl :: string
  socketApiKey :: string



text \<open>An entry of \<open>last_messages\<close>: an object, read as a message, or anything else.\<close>

datatype last_message = MessageObject message_json | NotAnObject

record registration_json =
  rj_success :: "bool option"
  rj_browser_key :: "string option"
  rj_chat_id :: "int option"
  rj_message :: "string option"
  rj_last_messages :: "last_message list option"

record RegistrationResponse =
  reg_success :: bool
  reg_browserKey :: string
  reg_chatId :: "int option"
  reg_message :: "string option"
  reg_lastMessages :: "last_message list option"

definition parseRegistrationResponse :: "registration_json \<Rightarrow> RegistrationResponse" where
  "parseRegistrationResponse json =
     \<lparr> reg_success = nullish (rj_success json) False,
       reg_browserKey = nullish (rj_browser_key json) [],
       reg_chatId = rj_chat_id json,
       reg_message = rj_message json,
       reg_lastMessages = rj_last_messages json \<rparr>"

text \<open>Each request method takes the outcome of its HTTP call: what the call threw, or the
  body of the response, an object whose fields have the types that the casts declare.\<close>

definition getConfig :: "thrown + ChatAppRemoteConfig \<Rightarrow> js_error + ChatAppRemoteConfig" where
  "getConfig outcome =
     (case outcome of Inl error \<Rightarrow> Inl (api_exception error) | Inr cfg \<Rightarrow> Inr cfg)"

definition registerBrowser :: "thrown + registration_json \<Rightarrow> js_error + RegistrationResponse" where
  "registerBrowser outcome =
     (case outcome of
        Inl error \<Rightarrow> Inl (api_exception error)
      | Inr json \<Rightarrow> Inr (parseRegistrationResponse json))"

definition api_updateBrowser :: "thrown + registration_json \<Rightarrow> js_error + RegistrationResponse" where
  "api_updateBrowser outcome =
     (case outcome of
        Inl error \<Rightarrow> Inl (api_exception error)
      | Inr json \<Rightarrow> Inr (parseRegistrationResponse json))"


subsection \<open>Uploads and their cancel token\<close>

text \<open>\<open>source_cancels\<close> lists the calls made to the axios source's \<open>cancel\<close>.\<close>

record CancelToken =
  isCancelled :: bool
  source_cancels :: "string list"

definition new_CancelToken :: CancelToken where
  "new_CancelToken = \<lparr> isCancelled = False, source_cancels = [] \<rparr>"

definition cancel :: "CancelToken \<Rightarrow> CancelToken" where
  "cancel t =
     (if \<not> isCancelled t
      then t\<lparr> isCancelled := True, source_cancels := source_cancels t @ [''Upload cancelled''] \<rparr>
      else t)"

text \<open>
  The outcome of the multipart POST: cancelled in flight (\<open>axios.isCancel\<close>), failed, or
  answered with a body. The second component of the result is the list of requests
  issued so far. After the answer, still inside the \<open>try\<close>, the method evaluates
  \<open>`Image uploaded: ${response.data.image_url}`\<close>: for a body that is \<open>null\<close> or
  \<open>undefined\<close>, and for an \<open>image_url\<close> that cannot be converted, this throws a
  \<open>TypeError\<close>, which the \<open>catch\<close> turns into a \<open>ChatApiException\<close>.
\<close>

datatype upload_outcome = UploadCancelled | UploadFailed thrown | UploadDone jsval

definition uploadImage ::
  "string \<Rightarrow> string \<Rightarrow> string option \<Rightarrow> CancelToken option \<Rightarrow> upload_outcome \<Rightarrow> string list
     \<Rightarrow> (js_error + jsval) \<times> string list" where
  "uploadImage browserKey imageUri endpoint cancelToken outcome requests =
     (if (case cancelToken of None \<Rightarrow> False | Some t \<Rightarrow> isCancelled t)
      then (Inl (UploadCancelledException ''Upload was cancelled''), requests)
      else (case outcome of
              UploadDone body \<Rightarrow>
                (if is_nullish body \<or> js_String (read_prop body ''image_url'') = None
                 then Inl (api_exception (Thrown TypeError_text))
                 else Inr body,
                 requests @ [''/upload-image''])
            | UploadCancelled \<Rightarrow>
                (Inl (UploadCancelledException ''Upload was cancelled''), requests @ [''/upload-image''])
            | UploadFailed error \<Rightarrow> (Inl (api_exception error), requests @ [''/upload-image''])))"

definition uploadFile ::
  "string \<Rightarrow> string \<Rightarrow> string option \<Rightarrow> CancelToken option \<Rightarrow> upload_outcome \<Rightarrow> string list
     \<Rightarrow> (js_error + jsval) \<times> string list" where
  "uploadFile browserKey fileUri endpoint cancelToken outcome requests =
     uploadImage browserKey fileUri endpoint cancelToken outcome requests"

section \<open>The persistent store (\<open>services/storage.service.ts\<close>)\<close>

text \<open>\<open>AsyncStorage\<close> is a map from keys to strings. Each call takes what the store did
  with it: \<open>None\<close> when the promise resolved, \<open>Some msg\<close> when it rejected with an error
  of that message; a rejected write leaves the map as it was.\<close>

type_synonym async_storage = "string \<rightharpoonup> string"

definition getItem :: "string option \<Rightarrow> async_storage \<Rightarrow> string \<Rightarrow> js_error + string option" where
  "getItem fault st k = (case fault of Some msg \<Rightarrow> Inl (NativeError msg) | None \<Rightarrow> Inr (st k))"

definition setItem ::
  "string option \<Rightarrow> async_storage \<Rightarrow> string \<Rightarrow> string \<Rightarrow> (js_error + unit) \<times> async_storage" where
  "setItem fault st k v =
     (case fault of Some msg \<Rightarrow> (Inl (NativeError msg), st) | None \<Rightarrow> (Inr (), st(k \<mapsto> v)))"

definition removeItem ::
  "string option \<Rightarrow> async_storage \<Rightarrow> string \<Rightarrow> (js_error + unit) \<times> async_storage" where
  "removeItem fault st k =
     (case fault of Some msg \<Rightarrow> (Inl (NativeError msg), st) | None \<Rightarrow> (Inr (), st(k := None)))"

definition browserStorageKey :: "string \<Rightarrow> string" where
  "browserStorageKey appKey = ''fcrm_chat_browser_'' @ appKey"

definition userDataStorageKey :: "string \<Rightarrow> string" where
  "userDataStorageKey appKey = ''fcrm_chat_user_'' @ appKey"

definition saveBrowserKey ::
  "string option \<Rightarrow> string \<Rightarrow> async_storage \<Rightarrow> string \<Rightarrow> (js_error + unit) \<times> async_storage" where
  "saveBrowserKey fault appKey st browserKey = setItem fault st (browserStorageKey appKey) browserKey"

definition getBrowserKey :: "string option \<Rightarrow> string \<Rightarrow> async_storage \<Rightarrow> js_error + string option" where
  "getBrowserKey fault appKey st = getItem fault st (browserStorageKey appKey)"

definition clearBrowserKey ::
  "string option \<Rightarrow> string \<Rightarrow> async_storage \<Rightarrow> (js_error + unit) \<times> async_storage" where
  "clearBrowserKey fault appKey st = removeItem fault st (browserStorageKey appKey)"

text \<open>\<open>JSON.stringify\<close> and \<open>JSON.parse\<close> (\<open>None\<close> when it throws), the clock and
  \<open>Object.prototype\<close> are the runtime's; the operations that use them take them as
  \<open>js_runtime\<close>. \<open>prototype_members\<close> lists the names of the members of
  \<open>Object.prototype\<close>, which every object inherits; each of them is a function or an
  object.\<close>

record js_runtime =
  JSON_stringify :: "jsval \<Rightarrow> string"
  JSON_parse :: "string \<Rightarrow> jsval option"
  now_iso :: string
  prototype_members :: "string list"

definition saveUserData ::
  "string option \<Rightarrow> js_runtime \<Rightarrow> string \<Rightarrow> async_storage \<Rightarrow> jsval
     \<Rightarrow> (js_error + unit) \<times> async_storage" where
  "saveUserData fault rt appKey st userData =
     setItem fault st (userDataStorageKey appKey) (JSON_stringify rt userData)"


definition clearUserData ::
  "string option \<Rightarrow> string \<Rightarrow> async_storage \<Rightarrow> (js_error + unit) \<times> async_storage" where
  "clearUserData fault appKey st = removeItem fault st (userDataStorageKey appKey)"

definition isRegistered_stored :: "string option \<Rightarrow> string \<Rightarrow> async_storage \<Rightarrow> js_error + bool" where
  "isRegistered_stored fault appKey st =
     (case getBrowserKey fault appKey st of
        Inl e \<Rightarrow> Inl e
      | Inr browserKey \<Rightarrow>
          Inr (case browserKey of None \<Rightarrow> False | Some k \<Rightarrow> length k > 0))"

text \<open>\<open>Promise.all\<close> starts both removals; it rejects when one of them does (with the
  first rejection), and the other removal still takes place.\<close>

definition clearAll ::
  "string option \<Rightarrow> string option \<Rightarrow> string \<Rightarrow> async_storage \<Rightarrow> (js_error + unit) \<times> async_storage" where
  "clearAll fault1 fault2 appKey st =
     (case clearBrowserKey fault1 appKey st of
        (r1, st1) \<Rightarrow>
          (case clearUserData fault2 appKey st1 of
             (r2, st2) \<Rightarrow>
               (case r1 of Inl e \<Rightarrow> (Inl e, st2) | Inr u \<Rightarrow> (r2, st2))))"

section \<open>The realtime channel (\<open>services/socket.service.ts\<close>)\<close>

text \<open>A subscriber is either the callback the provider component registers when it mounts,
  or a callback of the host application: an identity (a \<open>Set\<close> holds a function once) and
  whether a call with a given argument throws (\<open>Some msg\<close>).\<close>

datatype 'a callback = ProviderCallback | UserCallback nat "'a \<Rightarrow> string option"

text \<open>\<open>socket\<close> is \<open>None\<close> for \<open>null\<close>, else the socket's \<open>connected\<close> flag.
  \<open>emitted\<close> lists the \<open>join\<close> and \<open>leave\<close> events sent.\<close>

record socket_service =
  socket :: "bool option"
  currentBrowserKey :: "string option"
  connectionCallbacks :: "bool callback list"
  messageCallbacks :: "ChatMessage callback list"
  typingCallbacks :: "bool callback list"
  browserKeyCallbacks :: "string callback list"
  emitted :: "(string \<times> string) list"

definition new_socket_service :: socket_service where
  "new_socket_service =
     \<lparr> socket = None, currentBrowserKey = None, connectionCallbacks = [],
       messageCallbacks = [], typingCallbacks = [], browserKeyCallbacks = [], emitted = [] \<rparr>"

text \<open>\<open>!s\<close> for a string that may be \<open>null\<close>.\<close>

definition falsy_str :: "string option \<Rightarrow> bool" where
  "falsy_str s = (case s of None \<Rightarrow> True | Some t \<Rightarrow> t = [])"

definition connected :: "socket_service \<Rightarrow> bool" where
  "connected s = (socket s = Some True)"

definition connect :: "string \<Rightarrow> string \<Rightarrow> string option \<Rightarrow> socket_service \<Rightarrow> socket_service" where
  "connect url apiKey bk s =
     (if connected s then s
      else s\<lparr> currentBrowserKey := (if falsy_str bk then currentBrowserKey s else bk),
              socket := Some False \<rparr>)"

definition joinChatRoom :: "string \<Rightarrow> socket_service \<Rightarrow> socket_service" where
  "joinChatRoom bk s =
     (if \<not> connected s then s
      else s\<lparr> emitted := emitted s @ [(''join'', ''private-chat_'' @ bk)],
              currentBrowserKey := Some bk \<rparr>)"

definition leaveChatRoom :: "string \<Rightarrow> socket_service \<Rightarrow> socket_service" where
  "leaveChatRoom bk s =
     (if \<not> connected s then s
      else s\<lparr> emitted := emitted s @ [(''leave'', ''private-chat_'' @ bk)] \<rparr>)"

definition updateBrowserKey :: "string \<Rightarrow> socket_service \<Rightarrow> socket_service" where
  "updateBrowserKey bk s =
     (if Some bk = currentBrowserKey s then s
      else
        (let s1 = (case currentBrowserKey s of
                     None \<Rightarrow> s
                   | Some old \<Rightarrow> if old \<noteq> [] \<and> connected s then leaveChatRoom old s else s);
             s2 = s1\<lparr> currentBrowserKey := Some bk \<rparr>
         in if connected s2 then joinChatRoom bk s2 else s2))"

text \<open>\<open>Set.prototype.add\<close>; a set iterates in insertion order.\<close>

definition set_add :: "'a \<Rightarrow> 'a list \<Rightarrow> 'a list" where
  "set_add x xs = (if x \<in> set xs then xs else xs @ [x])"

text \<open>\<open>callbacks.forEach((callback) => callback(arg))\<close>: the callbacks run in order on a
  state; one that throws ends the loop, and the exception leaves \<open>forEach\<close>.\<close>

fun forEach_cb :: "('c \<Rightarrow> 's \<Rightarrow> js_error option \<times> 's) \<Rightarrow> 'c list \<Rightarrow> 's \<Rightarrow> js_error option \<times> 's" where
  "forEach_cb invoke [] s = (None, s)"
| "forEach_cb invoke (c # cs) s =
     (case invoke c s of
        (Some e, s') \<Rightarrow> (Some e, s')
      | (None, s') \<Rightarrow> forEach_cb invoke cs s')"

section \<open>The session core (\<open>context/FcrmChatContext.tsx\<close>)\<close>

record ChatState =
  isInitialized :: bool
  isConnected :: bool
  isRegistered :: bool
  remoteConfig :: "ChatAppRemoteConfig option"
  browserKey :: "string option"
  chatId :: "int option"
  error :: "js_error option"

text \<open>The provider: its React state, the three services (\<open>s_mounted\<close> tells whether the
  mount effect has constructed them; the refs are \<open>null\<close> before), the configuration it
  was given, the contents of \<open>AsyncStorage\<close>, and the log of the host callbacks called.\<close>

record session =
  s_mounted :: bool
  s_appKey :: string
  s_socketUrl :: "string option"
  cstate :: ChatState
  storage :: async_storage
  sock :: socket_service
  invoked :: "nat list"

definition initial_state :: ChatState where
  "initial_state =
     \<lparr> isInitialized = False, isConnected = False, isRegistered = False, remoteConfig = None,
       browserKey = None, chatId = None, error = None \<rparr>"

definition fresh_session :: "string \<Rightarrow> string option \<Rightarrow> async_storage \<Rightarrow> session" where
  "fresh_session key url st =
     \<lparr> s_mounted = False, s_appKey = key, s_socketUrl = url, cstate = initial_state,
       storage = st, sock = new_socket_service, invoked = [] \<rparr>"

text \<open>The mount effect constructs the services and subscribes the provider to connection
  changes and to identity updates.\<close>

definition mount :: "session \<Rightarrow> session" where
  "mount w =
     w\<lparr> s_mounted := True,
        sock := new_socket_service\<lparr> connectionCallbacks := [ProviderCallback],
                                   browserKeyCallbacks := [ProviderCallback] \<rparr> \<rparr>"

subsection \<open>Dispatch to the subscribers\<close>

definition call_user :: "nat \<Rightarrow> string option \<Rightarrow> session \<Rightarrow> js_error option \<times> session" where
  "call_user n thrown w = (map_option NativeError thrown, w\<lparr> invoked := invoked w @ [n] \<rparr>)"

text \<open>The provider's connection callback is \<open>setState(prev => ({...prev, isConnected}))\<close>.\<close>

fun invoke_connection :: "bool \<Rightarrow> bool callback \<Rightarrow> session \<Rightarrow> js_error option \<times> session" where
  "invoke_connection c ProviderCallback w = (None, w\<lparr> cstate := (cstate w)\<lparr> isConnected := c \<rparr> \<rparr>)"
| "invoke_connection c (UserCallback n f) w = call_user n (f c) w"

fun invoke_message :: "ChatMessage \<Rightarrow> ChatMessage callback \<Rightarrow> session \<Rightarrow> js_error option \<times> session" where
  "invoke_message m ProviderCallback w = (None, w)"
| "invoke_message m (UserCallback n f) w = call_user n (f m) w"

fun invoke_typing :: "bool \<Rightarrow> bool callback \<Rightarrow> session \<Rightarrow> js_error option \<times> session" where
  "invoke_typing t ProviderCallback w = (None, w)"
| "invoke_typing t (UserCallback n f) w = call_user n (f t) w"

text \<open>The provider's identity callback sets the state and starts the write to the store;
  it is \<open>async\<close>, so a rejected write is not thrown into the dispatch.\<close>

fun invoke_browserKey ::
  "string option \<Rightarrow> string \<Rightarrow> string callback \<Rightarrow> session \<Rightarrow> js_error option \<times> session" where
  "invoke_browserKey fault key ProviderCallback w =
     (None, w\<lparr> cstate := (cstate w)\<lparr> browserKey := Some key \<rparr>,
              storage := snd (saveBrowserKey fault (s_appKey w) (storage w) key) \<rparr>)"
| "invoke_browserKey fault key (UserCallback n f) w = call_user n (f key) w"

definition notifyConnectionChange :: "bool \<Rightarrow> session \<Rightarrow> js_error option \<times> session" where
  "notifyConnectionChange c w = forEach_cb (invoke_connection c) (connectionCallbacks (sock w)) w"

definition notifyMessage :: "ChatMessage \<Rightarrow> session \<Rightarrow> js_error option \<times> session" where
  "notifyMessage m w = forEach_cb (invoke_message m) (messageCallbacks (sock w)) w"

definition notifyTyping :: "bool \<Rightarrow> session \<Rightarrow> js_error option \<times> session" where
  "notifyTyping t w = forEach_cb (invoke_typing t) (typingCallbacks (sock w)) w"

definition notifyBrowserKeyUpdate ::
  "string option \<Rightarrow> string \<Rightarrow> session \<Rightarrow> js_error option \<times> session" where
  "notifyBrowserKeyUpdate fault key w =
     forEach_cb (invoke_browserKey fault key) (browserKeyCallbacks (sock w)) w"

subsection \<open>Socket events and \<open>disconnect\<close>\<close>

text \<open>The handlers of \<open>setupListeners\<close>. An exception that leaves a handler goes to the
  socket library; it is the first component of the result.\<close>

definition on_connect :: "session \<Rightarrow> js_error option \<times> session" where
  "on_connect w =
     (case notifyConnectionChange True (w\<lparr> sock := (sock w)\<lparr> socket := Some True \<rparr> \<rparr>) of
        (Some e, w1) \<Rightarrow> (Some e, w1)
      | (None, w1) \<Rightarrow>
          (case currentBrowserKey (sock w1) of
             None \<Rightarrow> (None, w1)
           | Some bk \<Rightarrow>
               if bk = [] then (None, w1) else (None, w1\<lparr> sock := joinChatRoom bk (sock w1) \<rparr>)))"

definition on_disconnect :: "session \<Rightarrow> js_error option \<times> session" where
  "on_disconnect w = notifyConnectionChange False (w\<lparr> sock := (sock w)\<lparr> socket := Some False \<rparr> \<rparr>)"

definition on_browser_key_updated :: "string option \<Rightarrow> jsval \<Rightarrow> session \<Rightarrow> js_error option \<times> session" where
  "on_browser_key_updated fault data w =
     (case get_prop data ''browser_key'' of
        Some (JStr key) \<Rightarrow>
          notifyBrowserKeyUpdate fault key (w\<lparr> sock := (sock w)\<lparr> currentBrowserKey := Some key \<rparr> \<rparr>)
      | _ \<Rightarrow> (None, w))"

text \<open>\<open>handleMessage\<close> parses the payload (the \<open>message\<close> member when there is one, else
  the payload itself) and dispatches inside a \<open>try\<close>: what a subscriber throws is caught
  and logged.\<close>

definition handleMessage :: "message_json \<Rightarrow> session \<Rightarrow> session" where
  "handleMessage messageData w = snd (notifyMessage (parseChatMessage messageData) w)"

definition on_typing :: "jsval \<Rightarrow> session \<Rightarrow> js_error option \<times> session" where
  "on_typing data w = notifyTyping (get_prop data ''isTyping'' = Some (JBool True)) w"

text \<open>
  \<open>disconnect\<close> of the socket service. \<open>this.socket.disconnect()\<close> closes a connected
  socket at once: the library clears the socket's \<open>connected\<close> flag and emits
  \<open>disconnect\<close> to the listener above before it returns, so that the subscribers are
  notified a first time, and an exception that a subscriber throws there leaves
  \<open>disconnect\<close> before the socket and the identity are cleared. On a socket that is not
  connected the library emits nothing. Then the fields are cleared and the subscribers
  notified.
\<close>

definition socket_disconnect :: "session \<Rightarrow> js_error option \<times> session" where
  "socket_disconnect w =
     (case socket (sock w) of
        None \<Rightarrow> (None, w)
      | Some c \<Rightarrow>
          (case (if c then on_disconnect w else (None, w)) of
             (Some e, w1) \<Rightarrow> (Some e, w1)
           | (None, w1) \<Rightarrow>
               notifyConnectionChange False
                 (w1\<lparr> sock := (sock w1)\<lparr> socket := None, currentBrowserKey := None \<rparr> \<rparr>)))"

text \<open>Subscription through the context: a no-op before the services exist.\<close>

definition onConnectionChange :: "bool callback \<Rightarrow> session \<Rightarrow> session" where
  "onConnectionChange cb w =
     (if \<not> s_mounted w then w
      else w\<lparr> sock := (sock w)\<lparr> connectionCallbacks := set_add cb (connectionCallbacks (sock w)) \<rparr> \<rparr>)"

definition onMessage :: "ChatMessage callback \<Rightarrow> session \<Rightarrow> session" where
  "onMessage cb w =
     (if \<not> s_mounted w then w
      else w\<lparr> sock := (sock w)\<lparr> messageCallbacks := set_add cb (messageCallbacks (sock w)) \<rparr> \<rparr>)"

definition onTyping :: "bool callback \<Rightarrow> session \<Rightarrow> session" where
  "onTyping cb w =
     (if \<not> s_mounted w then w
      else w\<lparr> sock := (sock w)\<lparr> typingCallbacks := set_add cb (typingCallbacks (sock w)) \<rparr> \<rparr>)"

subsection \<open>Calls in flight\<close>

text \<open>
  \<open>initialize\<close>, \<open>register\<close>, \<open>updateBrowser\<close> and \<open>reset\<close> are \<open>async\<close>: a call
  runs to its first \<open>await\<close>, and each later part of it runs when the awaited promise
  settles, with whatever other calls and socket events have run in between. A call that
  is waiting is a \<open>task\<close>: the point at which it waits, with the local variables it
  will use. The store serves its requests in the order in which they are issued, so a
  request to the store takes effect when the call issues it, and its answer waits in the
  task; the outcome of a request to the server is given when the call resumes.

  The callbacks are closures over the state of the render that created them
  (\<open>useCallback\<close>): what a call tests as \<open>state.isInitialized\<close>, \<open>state.remoteConfig\<close>
  or \<open>state.browserKey\<close> is that state, \<open>seen\<close> below, which is the current state or
  an earlier one. The writes go through \<open>setState(prev => ...)\<close>, which updates the
  current state.
\<close>

datatype task =
    InitConfig
  | InitKey ChatAppRemoteConfig "js_error + string option"
  | InitRegistered ChatAppRemoteConfig "string option" "js_error + bool"
  | RegApi "(string \<times> jsval) list" "string option"
  | RegSaveKey "(string \<times> jsval) list" RegistrationResponse "js_error + unit"
  | RegSaveData RegistrationResponse "js_error + unit"
  | UpdApi "(string \<times> jsval) list"
  | UpdSave RegistrationResponse "js_error + unit"
  | ResetClear "js_error + unit"

text \<open>Where a part of a call leaves it: over (\<open>Inl\<close>, with the exception it throws to
  its caller, if any; the value it returns is not kept), or waiting.\<close>

type_synonym progress = "js_error option + task"

subsection \<open>\<open>initialize\<close>\<close>

text \<open>The parts of a call, in order. \<open>seen\<close> is the closure's \<open>state.isInitialized\<close>.\<close>

definition initialize_call :: "bool \<Rightarrow> session \<Rightarrow> progress \<times> session" where
  "initialize_call seen w =
     (if seen then (Inl None, w)
      else if \<not> s_mounted w then (Inl (Some (ChatException ''Services not initialized'')), w)
      else (Inr InitConfig, w))"

text \<open>The \<open>catch\<close> block records the error and rethrows it.\<close>

definition initialize_catch :: "js_error \<Rightarrow> session \<Rightarrow> progress \<times> session" where
  "initialize_catch e w = (Inl (Some e), w\<lparr> cstate := (cstate w)\<lparr> error := Some e \<rparr> \<rparr>)"

text \<open>\<open>cfg\<close> is the outcome of the configuration request; \<open>g1\<close> is what the store does
  with the read of the identity, which is issued here.\<close>

definition initialize_after_config ::
  "thrown + ChatAppRemoteConfig \<Rightarrow> string option \<Rightarrow> session \<Rightarrow> progress \<times> session" where
  "initialize_after_config cfg g1 w =
     (case getConfig cfg of
        Inl e \<Rightarrow> initialize_catch e w
      | Inr rc \<Rightarrow>
          if \<not> isActive rc then initialize_catch (ChatException ''Chat app is not active'') w
          else (Inr (InitKey rc (getBrowserKey g1 (s_appKey w) (storage w))), w))"

text \<open>\<open>answer\<close> is the answer to the read of the identity; \<open>g2\<close> is what the store does
  with the read of \<open>isRegistered\<close>, which is issued here.\<close>

definition initialize_after_key ::
  "ChatAppRemoteConfig \<Rightarrow> js_error + string option \<Rightarrow> string option \<Rightarrow> session
     \<Rightarrow> progress \<times> session" where
  "initialize_after_key rc answer g2 w =
     (case answer of
        Inl e \<Rightarrow> initialize_catch e w
      | Inr bk \<Rightarrow> (Inr (InitRegistered rc bk (isRegistered_stored g2 (s_appKey w) (storage w))), w))"

definition initialize_after_registered ::
  "ChatAppRemoteConfig \<Rightarrow> string option \<Rightarrow> js_error + bool \<Rightarrow> session \<Rightarrow> progress \<times> session" where
  "initialize_after_registered rc bk answer w =
     (case answer of
        Inl e \<Rightarrow> initialize_catch e w
      | Inr reg \<Rightarrow>
          (Inl None,
           w\<lparr> sock := connect (nullish (s_socketUrl w) (socketUrl rc)) (socketApiKey rc) bk (sock w),
              cstate := (cstate w)\<lparr> isInitialized := True, isRegistered := reg,
                                    remoteConfig := Some rc, browserKey := bk,
                                    error := None \<rparr> \<rparr>))"

text \<open>
  The call as a whole, when it is made through a closure that holds the current state
  and nothing else runs before it is over: the body of the \<open>try\<close>, and the call.
  \<open>cfg\<close> is the outcome of the configuration request, \<open>g1\<close> and \<open>g2\<close> what the store
  did with the two reads.
\<close>

definition initialize_try ::
  "thrown + ChatAppRemoteConfig \<Rightarrow> string option \<Rightarrow> string option \<Rightarrow> session
     \<Rightarrow> (js_error + unit) \<times> session" where
  "initialize_try cfg g1 g2 w =
     (case getConfig cfg of
        Inl e \<Rightarrow> (Inl e, w)
      | Inr rc \<Rightarrow>
          if \<not> isActive rc then (Inl (ChatException ''Chat app is not active''), w)
          else
            (case getBrowserKey g1 (s_appKey w) (storage w) of
               Inl e \<Rightarrow> (Inl e, w)
             | Inr bk \<Rightarrow>
                 (case isRegistered_stored g2 (s_appKey w) (storage w) of
                    Inl e \<Rightarrow> (Inl e, w)
                  | Inr reg \<Rightarrow>
                      (Inr (),
                       w\<lparr> sock := connect (nullish (s_socketUrl w) (socketUrl rc)) (socketApiKey rc)
                                     bk (sock w),
                          cstate := (cstate w)\<lparr> isInitialized := True, isRegistered := reg,
                                                remoteConfig := Some rc, browserKey := bk,
                                                error := None \<rparr> \<rparr>))))"

definition initialize ::
  "thrown + ChatAppRemoteConfig \<Rightarrow> string option \<Rightarrow> string option \<Rightarrow> session
     \<Rightarrow> (js_error + unit) \<times> session" where
  "initialize cfg g1 g2 w =
     (if isInitialized (cstate w) then (Inr (), w)
      else if \<not> s_mounted w then (Inl (ChatException ''Services not initialized''), w)
      else
        (case initialize_try cfg g1 g2 w of
           (Inl e, w1) \<Rightarrow> (Inl e, w1\<lparr> cstate := (cstate w1)\<lparr> error := Some e \<rparr> \<rparr>)
         | (Inr u, w1) \<Rightarrow> (Inr u, w1)))"

subsection \<open>\<open>register\<close>\<close>

text \<open>
  \<open>userData[key]\<close>: the property that the submission holds itself, else the member of
  \<open>Object.prototype\<close> of that name, else \<open>undefined\<close>.
\<close>

datatype member = Absent | Own jsval | Inherited

definition read_member :: "js_runtime \<Rightarrow> (string \<times> jsval) list \<Rightarrow> string \<Rightarrow> member" where
  "read_member rt userData key =
     (case map_of userData key of
        Some v \<Rightarrow> Own v
      | None \<Rightarrow> if key \<in> set (prototype_members rt) then Inherited else Absent)"

definition missing_field_message :: "string \<Rightarrow> string \<Rightarrow> string" where
  "missing_field_message key label = ''Missing required field: '' @ label @ '' (key: '' @ key @ '')''"

text \<open>
  The body of the loop \<open>for (const [key, label] of Object.entries(requiredFields))\<close>, on
  the entries that are left: what the loop throws, if anything. For each entry it reads
  \<open>value = userData[key]\<close>, evaluates \<open>`... value = '${value}'`\<close> for the log, which
  throws when the value cannot be converted, and then tests
  \<open>value == null || String(value).trim() === ''\<close>. An inherited member is a function or
  an object: its text is not blank.
\<close>

fun checkRequiredFields ::
  "js_runtime \<Rightarrow> (string \<times> string) list \<Rightarrow> (string \<times> jsval) list \<Rightarrow> js_error option" where
  "checkRequiredFields rt [] userData = None"
| "checkRequiredFields rt ((key, label) # rest) userData =
     (case read_member rt userData key of
        Inherited \<Rightarrow> checkRequiredFields rt rest userData
      | Absent \<Rightarrow> Some (ChatException (missing_field_message key label))
      | Own v \<Rightarrow>
          (case js_String v of
             None \<Rightarrow> Some TypeError
           | Some text \<Rightarrow>
               if is_nullish v \<or> trim text = []
               then Some (ChatException (missing_field_message key label))
               else checkRequiredFields rt rest userData))"

text \<open>\<open>state.remoteConfig?.requiredFields ?? {}\<close>\<close>

definition held_requiredFields :: "ChatState \<Rightarrow> (string \<times> string) list" where
  "held_requiredFields st = (case remoteConfig st of None \<Rightarrow> [] | Some rc \<Rightarrow> requiredFields rc)"

text \<open>The parts of a call. \<open>seen\<close> is the closure's state. The first part holds the whole
  validation.\<close>

definition register_call ::
  "js_runtime \<Rightarrow> ChatState \<Rightarrow> (string \<times> jsval) list \<Rightarrow> string option \<Rightarrow> session
     \<Rightarrow> progress \<times> session" where
  "register_call rt seen userData endpoint w =
     (if \<not> isInitialized seen
      then (Inl (Some (ChatException ''Chat not initialized. Call initialize() first.'')), w)
      else if \<not> s_mounted w then (Inl (Some (ChatException ''Services not initialized'')), w)
      else
        (case checkRequiredFields rt (Object_entries (held_requiredFields seen)) userData of
           Some e \<Rightarrow> (Inl (Some e), w)
         | None \<Rightarrow> (Inr (RegApi userData endpoint), w)))"

text \<open>\<open>out\<close> is the outcome of the registration request; \<open>f1\<close> is what the store does
  with the write of the identity, which is issued here.\<close>

definition register_after_api ::
  "(string \<times> jsval) list \<Rightarrow> thrown + registration_json \<Rightarrow> string option \<Rightarrow> session
     \<Rightarrow> progress \<times> session" where
  "register_after_api userData out f1 w =
     (case registerBrowser out of
        Inl e \<Rightarrow> (Inl (Some e), w)
      | Inr response \<Rightarrow>
          (case saveBrowserKey f1 (s_appKey w) (storage w) (reg_browserKey response) of
             (answer, st1) \<Rightarrow> (Inr (RegSaveKey userData response answer), w\<lparr> storage := st1 \<rparr>)))"

text \<open>\<open>f2\<close> is what the store does with the write of the profile, which is issued here.\<close>

definition register_after_saveKey ::
  "js_runtime \<Rightarrow> (string \<times> jsval) list \<Rightarrow> RegistrationResponse \<Rightarrow> js_error + unit
     \<Rightarrow> string option \<Rightarrow> session \<Rightarrow> progress \<times> session" where
  "register_after_saveKey rt userData response answer f2 w =
     (case answer of
        Inl e \<Rightarrow> (Inl (Some e), w)
      | Inr u \<Rightarrow>
          (case saveUserData f2 rt (s_appKey w) (storage w)
                  (JObj (obj_set ''registrationDate'' (JStr (now_iso rt))
                           (obj_set ''registered'' (JBool True) userData))) of
             (answer2, st2) \<Rightarrow> (Inr (RegSaveData response answer2), w\<lparr> storage := st2 \<rparr>)))"

definition register_after_saveData ::
  "RegistrationResponse \<Rightarrow> js_error + unit \<Rightarrow> session \<Rightarrow> progress \<times> session" where
  "register_after_saveData response answer w =
     (case answer of
        Inl e \<Rightarrow> (Inl (Some e), w)
      | Inr u \<Rightarrow>
          (Inl None,
           w\<lparr> sock := updateBrowserKey (reg_browserKey response) (sock w),
              cstate := (cstate w)\<lparr> isRegistered := True,
                                    browserKey := Some (reg_browserKey response),
                                    chatId := reg_chatId response \<rparr> \<rparr>))"

text \<open>The call as a whole, made through a closure that holds the current state, with
  nothing else running before it is over. \<open>out\<close> is the outcome of the registration
  request, \<open>f1\<close> and \<open>f2\<close> what the store did with the two writes.\<close>

definition register ::
  "js_runtime \<Rightarrow> (string \<times> jsval) list \<Rightarrow> string option \<Rightarrow> thrown + registration_json
     \<Rightarrow> string option \<Rightarrow> string option \<Rightarrow> session \<Rightarrow> (js_error + unit) \<times> session" where
  "register rt userData endpoint out f1 f2 w =
     (if \<not> isInitialized (cstate w)
      then (Inl (ChatException ''Chat not initialized. Call initialize() first.''), w)
      else if \<not> s_mounted w then (Inl (ChatException ''Services not initialized''), w)
      else
        (case checkRequiredFields rt (Object_entries (held_requiredFields (cstate w))) userData of
           Some e \<Rightarrow> (Inl e, w)
         | None \<Rightarrow>
             (case registerBrowser out of
                Inl e \<Rightarrow> (Inl e, w)
              | Inr response \<Rightarrow>
                  (case saveBrowserKey f1 (s_appKey w) (storage w) (reg_browserKey response) of
                     (Inl e, st1) \<Rightarrow> (Inl e, w\<lparr> storage := st1 \<rparr>)
                   | (Inr u, st1) \<Rightarrow>
                       (case saveUserData f2 rt (s_appKey w) st1
                               (JObj (obj_set ''registrationDate'' (JStr (now_iso rt))
                                        (obj_set ''registered'' (JBool True) userData))) of
                          (Inl e, st2) \<Rightarrow> (Inl e, w\<lparr> storage := st2 \<rparr>)
                        | (Inr u', st2) \<Rightarrow>
                            (Inr (),
                             w\<lparr> storage := st2,
                                sock := updateBrowserKey (reg_browserKey response) (sock w),
                                cstate := (cstate w)\<lparr> isRegistered := True,
                                                      browserKey := Some (reg_browserKey response),
                                                      chatId := reg_chatId response \<rparr> \<rparr>))))))"

subsection \<open>\<open>updateBrowser\<close>\<close>

text \<open>The parts of a call. \<open>out\<close> is the outcome of the update request, \<open>f\<close> what the
  store does with the write of the profile.\<close>

definition updateBrowser_call ::
  "ChatState \<Rightarrow> (string \<times> jsval) list \<Rightarrow> session \<Rightarrow> progress \<times> session" where
  "updateBrowser_call seen userData w =
     (if \<not> isInitialized seen
      then (Inl (Some (ChatException ''Chat not initialized. Call initialize() first.'')), w)
      else if falsy_str (browserKey seen)
      then (Inl (Some (ChatException ''Not registered. Call register() first.'')), w)
      else if \<not> s_mounted w then (Inl (Some (ChatException ''Services not initialized'')), w)
      else (Inr (UpdApi userData), w))"

definition updateBrowser_after_api ::
  "js_runtime \<Rightarrow> (string \<times> jsval) list \<Rightarrow> thrown + registration_json \<Rightarrow> string option
     \<Rightarrow> session \<Rightarrow> progress \<times> session" where
  "updateBrowser_after_api rt userData out f w =
     (case api_updateBrowser out of
        Inl e \<Rightarrow> (Inl (Some e), w)
      | Inr response \<Rightarrow>
          (case saveUserData f rt (s_appKey w) (storage w) (JObj userData) of
             (answer, st) \<Rightarrow> (Inr (UpdSave response answer), w\<lparr> storage := st \<rparr>)))"

definition updateBrowser_after_save ::
  "RegistrationResponse \<Rightarrow> js_error + unit \<Rightarrow> session \<Rightarrow> progress \<times> session" where
  "updateBrowser_after_save response answer w =
     (case answer of
        Inl e \<Rightarrow> (Inl (Some e), w)
      | Inr u \<Rightarrow>
          (Inl None,
           w\<lparr> cstate := (cstate w)\<lparr> chatId := (case reg_chatId response of
                                                  None \<Rightarrow> chatId (cstate w)
                                                | Some c \<Rightarrow> Some c) \<rparr> \<rparr>))"

text \<open>The call as a whole, with the messages it returns. Entries of \<open>lastMessages\<close> that
  are not objects are skipped.\<close>

definition updateBrowser ::
  "js_runtime \<Rightarrow> (string \<times> jsval) list \<Rightarrow> thrown + registration_json \<Rightarrow> string option
     \<Rightarrow> session \<Rightarrow> (js_error + ChatMessage list) \<times> session" where
  "updateBrowser rt userData out f w =
     (if \<not> isInitialized (cstate w)
      then (Inl (ChatException ''Chat not initialized. Call initialize() first.''), w)
      else if falsy_str (browserKey (cstate w))
      then (Inl (ChatException ''Not registered. Call register() first.''), w)
      else if \<not> s_mounted w then (Inl (ChatException ''Services not initialized''), w)
      else
        (case api_updateBrowser out of
           Inl e \<Rightarrow> (Inl e, w)
         | Inr response \<Rightarrow>
             (let msgs = concat (map (\<lambda>m. case m of MessageObject j \<Rightarrow> [parseChatMessage j]
                                                     | NotAnObject \<Rightarrow> [])
                                 (nullish (reg_lastMessages response) []))
              in case saveUserData f rt (s_appKey w) (storage w) (JObj userData) of
                   (Inl e, st) \<Rightarrow> (Inl e, w\<lparr> storage := st \<rparr>)
                 | (Inr u, st) \<Rightarrow>
                     (Inr msgs,
                      w\<lparr> storage := st,
                         cstate := (cstate w)\<lparr> chatId := (case reg_chatId response of
                                                              None \<Rightarrow> chatId (cstate w)
                                                            | Some c \<Rightarrow> Some c) \<rparr> \<rparr>))))"

subsection \<open>\<open>loadMessages\<close>, \<open>reset\<close>, \<open>disconnect\<close>, \<open>reconnect\<close>\<close>


text \<open>
  \<open>reset\<close>: \<open>r1\<close> and \<open>r2\<close> are what the store does with the two removals, which are
  issued by the call. A provider that is not mounted has no services: the call then
  awaits nothing and publishes at once. The part after the \<open>await\<close> disconnects the
  socket and publishes; an exception that leaves \<open>disconnect\<close> leaves \<open>reset\<close> before
  \<open>setState\<close>.
\<close>

definition reset_publish :: "js_error option \<times> session \<Rightarrow> progress \<times> session" where
  "reset_publish dw =
     (case dw of
        (Some e, w1) \<Rightarrow> (Inl (Some e), w1)
      | (None, w1) \<Rightarrow>
          (Inl None,
           w1\<lparr> cstate := (cstate w1)\<lparr> isRegistered := False, browserKey := None,
                                     chatId := None \<rparr> \<rparr>))"

definition reset_call :: "string option \<Rightarrow> string option \<Rightarrow> session \<Rightarrow> progress \<times> session" where
  "reset_call r1 r2 w =
     (if s_mounted w
      then (case clearAll r1 r2 (s_appKey w) (storage w) of
              (answer, st) \<Rightarrow> (Inr (ResetClear answer), w\<lparr> storage := st \<rparr>))
      else reset_publish (None, w))"

definition reset_after_clear :: "js_error + unit \<Rightarrow> session \<Rightarrow> progress \<times> session" where
  "reset_after_clear answer w =
     (case answer of
        Inl e \<Rightarrow> (Inl (Some e), w)
      | Inr u \<Rightarrow> reset_publish (socket_disconnect w))"

text \<open>The call as a whole, with nothing else running before it is over.\<close>

definition reset :: "string option \<Rightarrow> string option \<Rightarrow> session \<Rightarrow> (js_error + unit) \<times> session" where
  "reset r1 r2 w =
     (case (if s_mounted w then clearAll r1 r2 (s_appKey w) (storage w) else (Inr (), storage w)) of
        (Inl e, st) \<Rightarrow> (Inl e, w\<lparr> storage := st \<rparr>)
      | (Inr u, st) \<Rightarrow>
          (case (if s_mounted w then socket_disconnect (w\<lparr> storage := st \<rparr>)
                 else (None, w\<lparr> storage := st \<rparr>)) of
             (Some e, w1) \<Rightarrow> (Inl e, w1)
           | (None, w1) \<Rightarrow>
               (Inr (),
                w1\<lparr> cstate := (cstate w1)\<lparr> isRegistered := False, browserKey := None,
                                          chatId := None \<rparr> \<rparr>)))"

definition disconnect :: "session \<Rightarrow> js_error option \<times> session" where
  "disconnect w = (if s_mounted w then socket_disconnect w else (None, w))"

text \<open>\<open>reconnect\<close> takes the configuration and the identity from the closure's state.\<close>

definition reconnect_call :: "ChatState \<Rightarrow> session \<Rightarrow> session" where
  "reconnect_call seen w =
     (if \<not> s_mounted w then w
      else (case remoteConfig seen of
              None \<Rightarrow> w
            | Some rc \<Rightarrow>
                w\<lparr> sock := connect (nullish (s_socketUrl w) (socketUrl rc)) (socketApiKey rc)
                              (browserKey seen) (sock w) \<rparr>))"

definition reconnect :: "session \<Rightarrow> session" where
  "reconnect w = reconnect_call (cstate w) w"

subsection \<open>The provider over time\<close>

text \<open>What the environment answers when a call resumes: the outcome of the request to
  the server that the call awaits, and what the store does with the request to it that
  the call issues next.\<close>

record answers =
  a_config :: "thrown + ChatAppRemoteConfig"
  a_registration :: "thrown + registration_json"
  a_fault :: "string option"

fun resume :: "js_runtime \<Rightarrow> answers \<Rightarrow> task \<Rightarrow> session \<Rightarrow> progress \<times> session" where
  "resume rt a InitConfig w = initialize_after_config (a_config a) (a_fault a) w"
| "resume rt a (InitKey rc answer) w = initialize_after_key rc answer (a_fault a) w"
| "resume rt a (InitRegistered rc bk answer) w = initialize_after_registered rc bk answer w"
| "resume rt a (RegApi userData endpoint) w =
     register_after_api userData (a_registration a) (a_fault a) w"
| "resume rt a (RegSaveKey userData response answer) w =
     register_after_saveKey rt userData response answer (a_fault a) w"
| "resume rt a (RegSaveData response answer) w = register_after_saveData response answer w"
| "resume rt a (UpdApi userData) w =
     updateBrowser_after_api rt userData (a_registration a) (a_fault a) w"
| "resume rt a (UpdSave response answer) w = updateBrowser_after_save response answer w"
| "resume rt a (ResetClear answer) w = reset_after_clear answer w"

text \<open>The calls that the host application can make, each with the state its closure
  holds, and the events of the socket.\<close>

datatype call =
    Initialize bool
  | Register ChatState "(string \<times> jsval) list" "string option"
  | UpdateBrowser ChatState "(string \<times> jsval) list"
  | Reset "string option" "string option"
  | Disconnect
  | Reconnect ChatState
  | OnConnectionChange nat "bool \<Rightarrow> string option"
  | OnMessage nat "ChatMessage \<Rightarrow> string option"
  | OnTyping nat "bool \<Rightarrow> string option"

fun start :: "js_runtime \<Rightarrow> call \<Rightarrow> session \<Rightarrow> progress \<times> session" where
  "start rt (Initialize seen) w = initialize_call seen w"
| "start rt (Register seen userData endpoint) w = register_call rt seen userData endpoint w"
| "start rt (UpdateBrowser seen userData) w = updateBrowser_call seen userData w"
| "start rt (Reset r1 r2) w = reset_call r1 r2 w"
| "start rt Disconnect w = (Inl (fst (disconnect w)), snd (disconnect w))"
| "start rt (Reconnect seen) w = (Inl None, reconnect_call seen w)"
| "start rt (OnConnectionChange n f) w = (Inl None, onConnectionChange (UserCallback n f) w)"
| "start rt (OnMessage n g) w = (Inl None, onMessage (UserCallback n g) w)"
| "start rt (OnTyping n f) w = (Inl None, onTyping (UserCallback n f) w)"

datatype event =
    Connected
  | Dropped
  | IdentityUpdate "string option" jsval
  | MessageEvent message_json
  | TypingEvent jsval

text \<open>An exception that leaves a listener goes to the socket library; what the listener
  did before stays.\<close>

fun deliver :: "event \<Rightarrow> session \<Rightarrow> session" where
  "deliver Connected w = snd (on_connect w)"
| "deliver Dropped w = snd (on_disconnect w)"
| "deliver (IdentityUpdate fault data) w = snd (on_browser_key_updated fault data w)"
| "deliver (MessageEvent m) w = handleMessage m w"
| "deliver (TypingEvent data) w = snd (on_typing data w)"

fun pending :: "progress \<Rightarrow> task list" where
  "pending (Inl r) = []"
| "pending (Inr t) = [t]"

text \<open>
  The sessions that the provider can be in, with the calls that are waiting. It starts
  unmounted, with the initial state and whatever an earlier run left in the store; the
  mount effect runs once; then calls start, waiting calls resume in any order, and the
  socket, once there is one, delivers events. The closure of a call may hold any state
  (which covers the earlier states of the session).

  The parameter \<open>ok\<close> restricts the schedules: a call of \<open>initialize\<close> that has read the
  identity \<open>bk\<close> from the store resumes, and issues the read of \<open>isRegistered\<close>, only in
  a session \<open>w\<close> with \<open>ok bk w\<close>.
\<close>

fun admissible :: "(string option \<Rightarrow> session \<Rightarrow> bool) \<Rightarrow> task \<Rightarrow> session \<Rightarrow> bool" where
  "admissible ok (InitKey rc (Inr bk)) w = ok bk w"
| "admissible ok t w = True"

inductive interleaved :: "(string option \<Rightarrow> session \<Rightarrow> bool) \<Rightarrow> session \<Rightarrow> task list \<Rightarrow> bool"
  for ok :: "string option \<Rightarrow> session \<Rightarrow> bool" where
  i_fresh: "interleaved ok (fresh_session key url st) []"
| i_mount: "interleaved ok w ts \<Longrightarrow> \<not> s_mounted w \<Longrightarrow> interleaved ok (mount w) ts"
| i_call: "interleaved ok w ts \<Longrightarrow> start rt c w = (p, w')
            \<Longrightarrow> interleaved ok w' (ts @ pending p)"
| i_resume: "interleaved ok w (pre @ t # post) \<Longrightarrow> admissible ok t w
            \<Longrightarrow> resume rt a t w = (p, w')
            \<Longrightarrow> interleaved ok w' (pre @ pending p @ post)"
| i_event: "interleaved ok w ts \<Longrightarrow> socket (sock w) \<noteq> None
            \<Longrightarrow> interleaved ok (deliver ev w) ts"

text \<open>A call that runs with nothing in between: it resumes, each time with the next
  answers, until it is over.\<close>

fun run :: "js_runtime \<Rightarrow> answers list \<Rightarrow> progress \<times> session \<Rightarrow> progress \<times> session" where
  "run rt [] pw = pw"
| "run rt (a # as) (Inl r, w) = (Inl r, w)"
| "run rt (a # as) (Inr t, w) = run rt as (resume rt a t w)"

definition raised :: "js_error + 'a \<Rightarrow> js_error option" where
  "raised r = (case r of Inl e \<Rightarrow> Some e | Inr v \<Rightarrow> None)"

section \<open>The claims' own notions\<close>






text \<open>Whether a subscriber throws on an argument, the host callbacks among a list of
  subscribers, and the subscribers up to and including the first one that throws.\<close>

definition cb_throws :: "'a \<Rightarrow> 'a callback \<Rightarrow> bool" where
  "cb_throws a cb = (case cb of ProviderCallback \<Rightarrow> False | UserCallback n f \<Rightarrow> f a \<noteq> None)"

definition cb_ids :: "'a callback list \<Rightarrow> nat list" where
  "cb_ids cbs = concat (map (\<lambda>cb. case cb of ProviderCallback \<Rightarrow> [] | UserCallback n f \<Rightarrow> [n]) cbs)"

fun up_to_first_throw :: "'a \<Rightarrow> 'a callback list \<Rightarrow> 'a callback list" where
  "up_to_first_throw a [] = []"
| "up_to_first_throw a (cb # cbs) = (if cb_throws a cb then [cb] else cb # up_to_first_throw a cbs)"





text \<open>
  The schedules of \<open>initialize\<close>. \<open>stable_read\<close>: when a call issues its second read of
  the store (\<open>isRegistered\<close>), the store holds the identity that the first read
  (\<open>getBrowserKey\<close>) returned. \<open>any_read\<close>: no restriction.
\<close>

definition stable_read :: "string option \<Rightarrow> session \<Rightarrow> bool" where
  "stable_read bk w = (storage w (browserStorageKey (s_appKey w)) = bk)"



section \<open>Example data\<close>

definition demo_runtime :: js_runtime where
  "demo_runtime =
     \<lparr> JSON_stringify = (\<lambda>v. ''{}''),
       JSON_parse = (\<lambda>t. if t = ''{}'' then Some (JObj []) else None),
       now_iso = ''2024-01-01T00:00:00.000Z'',
       prototype_members =
         [''constructor'', ''hasOwnProperty'', ''isPrototypeOf'', ''propertyIsEnumerable'',
          ''toLocaleString'', ''toString'', ''valueOf'', ''__proto__'', ''__defineGetter__'',
          ''__defineSetter__'', ''__lookupGetter__'', ''__lookupSetter__''] \<rparr>"

definition active_config :: ChatAppRemoteConfig where
  "active_config =
     \<lparr> appName = ''Chat'', isActive = True, settings = [],
       requiredFields = [(''name'', ''Name''), (''email'', ''Email'')],
       socketUrl = ''wss://chat.example'', socketApiKey = ''k'' \<rparr>"

definition inactive_config :: ChatAppRemoteConfig where
  "inactive_config = active_config\<lparr> isActive := False \<rparr>"

definition mounted_session :: session where
  "mounted_session = mount (fresh_session ''app'' None Map.empty)"





definition registration_ok :: registration_json where
  "registration_ok =
     \<lparr> rj_success = Some True, rj_browser_key = Some ''abc123'', rj_chat_id = Some 7,
       rj_message = None, rj_last_messages = None \<rparr>"






definition throwing_cb :: "'a callback" where
  "throwing_cb = UserCallback 1 (\<lambda>x. Some ''boom'')"

definition quiet_cb :: "'a callback" where
  "quiet_cb = UserCallback 2 (\<lambda>x. None)"

definition subscribed_session :: session where
  "subscribed_session = onTyping quiet_cb (onTyping throwing_cb mounted_session)"

definition quiet_first_session :: session where
  "quiet_first_session = onTyping throwing_cb (onTyping quiet_cb mounted_session)"


definition empty_error_body :: jsval where
  "empty_error_body = JObj [(''error'', JStr []), (''message'', JStr ''Server down'')]"

definition validation_body :: jsval where
  "validation_body =
     JObj [(''message'', JStr ''Invalid''),
           (''errors'', JObj [(''email'', JArr [JStr ''taken'', JStr ''bad'']),
                              (''name'', JArr [JStr ''short''])])]"

definition failed_with :: "safe_int \<Rightarrow> jsval \<Rightarrow> thrown" where
  "failed_with n body = AxiosError (Some \<lparr> resp_status = n, resp_data = Some body \<rparr>)"

definition uploaded_body :: jsval where
  "uploaded_body = JObj [(''image_url'', JStr ''https://cdn.example/a.png'')]"

text \<open>A payload whose \<open>type\<close> is a number.\<close>

definition numeric_type_payload :: jsval where
  "numeric_type_payload = JObj [(''id'', JNum (num 1)), (''type'', JNum (num 5))]"

text \<open>An environment in which every request succeeds.\<close>

definition steady :: answers where
  "steady = \<lparr> a_config = Inr active_config, a_registration = Inr registration_ok, a_fault = None \<rparr>"







section \<open>Message parsing and pages\<close>

lemma parseMessageType_valid: "parseMessageType v \<in> set MessageTypes"
  by (cases v) (simp_all add: parseMessageType_def MessageTypes_def)

lemma parseMessageType_any_cases:
  "parseMessageType_any x = Inr t \<Longrightarrow> t \<in> set MessageTypes"
  "parseMessageType_any x = Inl e \<Longrightarrow> e = TypeError"
  "(\<exists>t. parseMessageType_any x = Inr t) = (is_nullish x \<or> (\<exists>s. x = JStr s))"
  using parseMessageType_valid by (cases x; auto)+

lemma date_if_any_cases:
  "date_if_any v = Inl e \<Longrightarrow> e = TypeError"
  "(\<exists>d. date_if_any v = Inr d) = (truthy v \<longrightarrow> js_String v \<noteq> None)"
  by (auto simp: date_if_any_def new_Date_def split: option.splits if_splits sum.splits)

text \<open>
  C10, as stated, fails in its last clause: for a payload whose \<open>type\<close> is not a string
  (here the number \<open>5\<close>), \<open>value?.toLowerCase()\<close> throws a \<open>TypeError\<close>, so that
  \<open>parseMessageType\<close> fails instead of returning \<open>user\<close>, and \<open>parseChatMessage\<close>
  builds no message.
\<close>

theorem parseMessageType_numeric_type_counterexample:
  "read_prop numeric_type_payload ''type'' = JNum (num 5)
   \<and> parseMessageType_any (JNum (num 5)) = Inl TypeError
   \<and> parseChatMessage_any numeric_type_payload = Inl TypeError"
  by (simp add: numeric_type_payload_def read_prop_def parseChatMessage_any_def)

text \<open>
  C10, amended. \<open>parseMessageType\<close> returns for every input that is a string or
  \<open>undefined\<close> one of the four sender categories; \<open>undefined\<close> gives \<open>user\<close>; a string
  gives the category it spells when lower-cased (so the match ignores case) and \<open>user\<close>
  when it spells none; and the message that \<open>parseChatMessage\<close> builds from a payload
  with fields of the declared types carries one of the four categories. On a value of any
  type, \<open>parseMessageType\<close> does the same for a string, gives \<open>user\<close> for \<open>undefined\<close>
  and \<open>null\<close>, and throws a \<open>TypeError\<close> for every other value. On a payload of any
  shape, \<open>parseChatMessage\<close> throws nothing but a \<open>TypeError\<close>; it builds a message
  exactly when the payload is not \<open>null\<close> or \<open>undefined\<close>, its \<open>type\<close> is a string,
  \<open>null\<close>, \<open>undefined\<close> or absent, and each of its three date fields is falsy or can be
  converted; and every message it builds carries one of the four categories.
\<close>

theorem parseMessageType_total:
  "parseMessageType v \<in> set MessageTypes
   \<and> parseMessageType None = ''user''
   \<and> parseMessageType (Some s) =
       (if toLowerCase s \<in> set MessageTypes then toLowerCase s else ''user'')
   \<and> msg_type (parseChatMessage json) \<in> set MessageTypes
   \<and> parseMessageType_any (JStr s) = Inr (parseMessageType (Some s))
   \<and> parseMessageType_any JUndefined = Inr ''user''
   \<and> parseMessageType_any JNull = Inr ''user''
   \<and> (\<not> is_nullish x \<and> (\<forall>t. x \<noteq> JStr t) \<longrightarrow> parseMessageType_any x = Inl TypeError)
   \<and> (parseChatMessage_any p = Inl e \<longrightarrow> e = TypeError)
   \<and> (parseChatMessage_any p = Inr m \<longrightarrow> wm_type m \<in> set MessageTypes)
   \<and> ((\<exists>m. parseChatMessage_any p = Inr m) \<longleftrightarrow>
        \<not> is_nullish p
        \<and> (is_nullish (read_prop p ''type'') \<or> (\<exists>t. read_prop p ''type'' = JStr t))
        \<and> (truthy (read_prop p ''created_at'') \<longrightarrow> js_String (read_prop p ''created_at'') \<noteq> None)
        \<and> (truthy (read_prop p ''updated_at'') \<longrightarrow> js_String (read_prop p ''updated_at'') \<noteq> None)
        \<and> (truthy (read_prop p ''read_at'') \<longrightarrow> js_String (read_prop p ''read_at'') \<noteq> None))"
proof -
  have typed: "parseMessageType v \<in> set MessageTypes
      \<and> parseMessageType None = ''user''
      \<and> parseMessageType (Some s) =
          (if toLowerCase s \<in> set MessageTypes then toLowerCase s else ''user'')
      \<and> msg_type (parseChatMessage json) \<in> set MessageTypes"
    by (cases v)
       (simp_all add: parseMessageType_def MessageTypes_def parseChatMessage_def
          split: option.splits)
  have any_str: "parseMessageType_any (JStr s) = Inr (parseMessageType (Some s))
      \<and> parseMessageType_any JUndefined = Inr ''user''
      \<and> parseMessageType_any JNull = Inr ''user''"
    by (simp add: parseMessageType_def)
  have any_other: "\<not> is_nullish x \<and> (\<forall>t. x \<noteq> JStr t) \<longrightarrow> parseMessageType_any x = Inl TypeError"
    by (cases x) simp_all
  have err: "parseChatMessage_any p = Inl e \<longrightarrow> e = TypeError"
    using parseMessageType_any_cases(2) date_if_any_cases(1)
    by (auto simp: parseChatMessage_any_def split: if_splits sum.splits)
  have ok: "parseChatMessage_any p = Inr m \<longrightarrow> wm_type m \<in> set MessageTypes"
    using parseMessageType_any_cases(1)
    by (auto simp: parseChatMessage_any_def split: if_splits sum.splits)
  have iff: "(\<exists>m. parseChatMessage_any p = Inr m) \<longleftrightarrow>
        \<not> is_nullish p
        \<and> (is_nullish (read_prop p ''type'') \<or> (\<exists>t. read_prop p ''type'' = JStr t))
        \<and> (truthy (read_prop p ''created_at'') \<longrightarrow> js_String (read_prop p ''created_at'') \<noteq> None)
        \<and> (truthy (read_prop p ''updated_at'') \<longrightarrow> js_String (read_prop p ''updated_at'') \<noteq> None)
        \<and> (truthy (read_prop p ''read_at'') \<longrightarrow> js_String (read_prop p ''read_at'') \<noteq> None)"
  proof -
    have "(\<exists>m. parseChatMessage_any p = Inr m) \<longleftrightarrow>
        \<not> is_nullish p
        \<and> (\<exists>t. parseMessageType_any (read_prop p ''type'') = Inr t)
        \<and> (\<exists>d. date_if_any (read_prop p ''created_at'') = Inr d)
        \<and> (\<exists>d. date_if_any (read_prop p ''updated_at'') = Inr d)
        \<and> (\<exists>d. date_if_any (read_prop p ''read_at'') = Inr d)"
      by (auto simp: parseChatMessage_any_def split: if_splits sum.splits)
    then show ?thesis
      by (simp only: parseMessageType_any_cases(3) date_if_any_cases(2))
  qed
  show ?thesis
    using typed any_str any_other err ok iff by blast
qed

theorem parseMessageType_total_witness:
  "parseMessageType (Some ''AdMiN'') = ''admin'' \<and> parseMessageType (Some ''bot'') = ''user''
   \<and> parseMessageType_any (JBool True) = Inl TypeError
   \<and> (\<exists>m. parseChatMessage_any (JObj [(''type'', JStr ''AI'')]) = Inr m)"
proof -
  have low: "toLowerCase ''AdMiN'' = ''admin''" "toLowerCase ''bot'' = ''bot''"
    by code_simp+
  note t1 = parseMessageType_total [of None "''AdMiN''" _ "JBool True" "JObj [(''type'', JStr ''AI'')]"]
  note t2 = parseMessageType_total [of None "''bot''"]
  have a: "parseMessageType (Some ''AdMiN'') =
          (if toLowerCase ''AdMiN'' \<in> set MessageTypes then toLowerCase ''AdMiN'' else ''user'')"
    using t1 by blast
  have b: "parseMessageType (Some ''bot'') =
          (if toLowerCase ''bot'' \<in> set MessageTypes then toLowerCase ''bot'' else ''user'')"
    using t2 by blast
  have c: "\<not> is_nullish (JBool True) \<and> (\<forall>t. JBool True \<noteq> JStr t)
      \<longrightarrow> parseMessageType_any (JBool True) = Inl TypeError"
    using t1 by blast
  have d: "(\<exists>m. parseChatMessage_any (JObj [(''type'', JStr ''AI'')]) = Inr m) \<longleftrightarrow>
        \<not> is_nullish (JObj [(''type'', JStr ''AI'')])
        \<and> (is_nullish (read_prop (JObj [(''type'', JStr ''AI'')]) ''type'')
            \<or> (\<exists>t. read_prop (JObj [(''type'', JStr ''AI'')]) ''type'' = JStr t))
        \<and> (truthy (read_prop (JObj [(''type'', JStr ''AI'')]) ''created_at'')
            \<longrightarrow> js_String (read_prop (JObj [(''type'', JStr ''AI'')]) ''created_at'') \<noteq> None)
        \<and> (truthy (read_prop (JObj [(''type'', JStr ''AI'')]) ''updated_at'')
            \<longrightarrow> js_String (read_prop (JObj [(''type'', JStr ''AI'')]) ''updated_at'') \<noteq> None)
        \<and> (truthy (read_prop (JObj [(''type'', JStr ''AI'')]) ''read_at'')
            \<longrightarrow> js_String (read_prop (JObj [(''type'', JStr ''AI'')]) ''read_at'') \<noteq> None)"
    using t1 by blast
  have e: "\<exists>m. parseChatMessage_any (JObj [(''type'', JStr ''AI'')]) = Inr m"
    unfolding d by (simp add: read_prop_def)
  show ?thesis
    using a b c e by (simp add: low MessageTypes_def)
qed

text \<open>
  C5. On every page that is constructed, by \<open>parsePaginatedMessages\<close> from a server
  response or by \<open>createEmptyPaginatedMessages\<close>, \<open>hasMore\<close> is exactly
  \<open>currentPage < lastPage\<close>; a response with \<open>current_page = last_page = 1\<close> gives
  \<open>hasMore = false\<close>.
\<close>

theorem hasMore_exact:
  "hasMore (parsePaginatedMessages json) =
     (currentPage (parsePaginatedMessages json) < lastPage (parsePaginatedMessages json))
   \<and> hasMore (createEmptyPaginatedMessages p) =
     (currentPage (createEmptyPaginatedMessages p) < lastPage (createEmptyPaginatedMessages p))
   \<and> \<not> hasMore (parsePaginatedMessages (json\<lparr> j_current_page := Some 1, j_last_page := Some 1 \<rparr>))"
  by (simp add: parsePaginatedMessages_def Let_def createEmptyPaginatedMessages_def nullish_def)

theorem hasMore_exact_witness:
  "hasMore (parsePaginatedMessages
      \<lparr> j_messages = None, j_total = Some 45, j_current_page = Some 2, j_per_page = Some 20,
        j_last_page = Some 3 \<rparr>)
   \<and> \<not> hasMore (createEmptyPaginatedMessages (Some 20))"
  using hasMore_exact [of "\<lparr> j_messages = None, j_total = Some 45, j_current_page = Some 2,
      j_per_page = Some 20, j_last_page = Some 3 \<rparr>" "Some 20"]
  by (simp add: parsePaginatedMessages_def Let_def createEmptyPaginatedMessages_def nullish_def)

section \<open>Uploads\<close>

text \<open>
  C8. An upload whose cancel token has been cancelled before the call fails with
  \<open>UploadCancelledException\<close> and issues no request (the list of requests is unchanged),
  for \<open>uploadImage\<close> and for \<open>uploadFile\<close>; and \<open>cancel\<close> is idempotent: after the first
  call \<open>isCancelled\<close> is true, and a second call changes nothing, so the axios source is
  cancelled once.
\<close>

theorem upload_cancelled_before_start:
  "uploadImage bk uri ep (Some (cancel t)) out reqs =
     (Inl (UploadCancelledException ''Upload was cancelled''), reqs)
   \<and> uploadFile bk uri ep (Some (cancel t)) out reqs =
     (Inl (UploadCancelledException ''Upload was cancelled''), reqs)
   \<and> isCancelled (cancel t)
   \<and> cancel (cancel t) = cancel t
   \<and> source_cancels (cancel (cancel new_CancelToken)) = [''Upload cancelled'']"
  by (simp add: uploadImage_def uploadFile_def cancel_def new_CancelToken_def)

theorem upload_cancelled_before_start_witness:
  "uploadImage ''bk'' ''file:///a.png'' None (Some (cancel new_CancelToken))
      (UploadDone uploaded_body) [] =
     (Inl (UploadCancelledException ''Upload was cancelled''), [])
   \<and> uploadImage ''bk'' ''file:///a.png'' None (Some new_CancelToken)
      (UploadDone uploaded_body) [] =
     (Inr uploaded_body, [''/upload-image''])"
  using upload_cancelled_before_start
          [of "''bk''" "''file:///a.png''" None new_CancelToken "UploadDone uploaded_body" "[]"]
  by (simp add: uploadImage_def new_CancelToken_def uploaded_body_def read_prop_def)

section \<open>Initialization\<close>

text \<open>
  C3. When the configuration request returns a configuration whose active flag is false,
  \<open>initialize\<close> throws \<open>ChatException('Chat app is not active')\<close>, and the session is as
  before except that the state's \<open>error\<close> holds the thrown error: \<open>isInitialized\<close> stays
  false and no other field of the state, the socket or the store changes. (The
  configuration is requested only by a mounted provider that is not yet initialized.)
\<close>

theorem initialize_inactive_app:
  assumes "\<not> isInitialized (cstate w)" and "s_mounted w" and "\<not> isActive rc"
  shows "initialize (Inr rc) g1 g2 w =
           (Inl (ChatException ''Chat app is not active''),
            w\<lparr> cstate := (cstate w)\<lparr> error := Some (ChatException ''Chat app is not active'') \<rparr> \<rparr>)
         \<and> \<not> isInitialized (cstate (snd (initialize (Inr rc) g1 g2 w)))
         \<and> error (cstate (snd (initialize (Inr rc) g1 g2 w))) =
             Some (ChatException ''Chat app is not active'')"
  using assms by (simp add: initialize_def initialize_try_def getConfig_def)

theorem initialize_inactive_app_witness:
  "fst (initialize (Inr inactive_config) None None mounted_session) =
     Inl (ChatException ''Chat app is not active'')
   \<and> cstate (snd (initialize (Inr inactive_config) None None mounted_session)) =
     initial_state\<lparr> error := Some (ChatException ''Chat app is not active'') \<rparr>"
proof -
  have h1: "\<not> isInitialized (cstate mounted_session)"
    by (simp add: mounted_session_def mount_def fresh_session_def initial_state_def)
  have h2: "s_mounted mounted_session"
    by (simp add: mounted_session_def mount_def)
  have h3: "\<not> isActive inactive_config"
    by (simp add: inactive_config_def)
  show ?thesis
    using initialize_inactive_app [OF h1 h2 h3, of None None]
    by (simp add: mounted_session_def mount_def fresh_session_def)
qed

text \<open>The call as a whole is the run of its parts, one after the other, from a closure
  that holds the current state.\<close>

lemma initialize_uninterrupted:
  "run rt [\<lparr> a_config = cfg, a_registration = x1, a_fault = g1 \<rparr>,
           \<lparr> a_config = x2, a_registration = x3, a_fault = g2 \<rparr>, a3]
       (initialize_call (isInitialized (cstate w)) w) =
     (Inl (raised (fst (initialize cfg g1 g2 w))), snd (initialize cfg g1 g2 w))"
  by (auto simp: initialize_call_def initialize_def initialize_try_def initialize_after_config_def
        initialize_after_key_def initialize_after_registered_def initialize_catch_def raised_def
        split: sum.splits)

section \<open>Error messages of failed requests\<close>

lemma get_prop_truthy: "get_prop d k = Some v \<Longrightarrow> truthy d"
  by (cases d) simp_all

lemma truthy_prop_truthy: "truthy_prop d k = Some v \<Longrightarrow> truthy d"
  by (auto simp: truthy_prop_def split: option.splits if_splits dest: get_prop_truthy)

lemma truthy_prop_falsy: "\<not> truthy d \<Longrightarrow> truthy_prop d k = None"
  using truthy_prop_truthy [of d k] by (cases "truthy_prop d k") auto

lemma join_values_strings: "join_values sep (map JStr xs) = Inr (join sep xs)"
proof -
  have "those (map (\<lambda>v. if is_nullish v then Some [] else js_String v) (map JStr xs)) = Some xs"
    by (induction xs) simp_all
  then show ?thesis
    by (simp add: join_values_def)
qed

lemma flat_string_lists:
  "flat (map snd (map (\<lambda>kv. (fst kv, JArr (map JStr (snd kv)))) m)) = map JStr (concat (map snd m))"
  by (induction m) (auto simp: flat_def)


lemma Object_entries_map:
  "Object_entries (map (\<lambda>kv. (fst kv, g (snd kv))) kvs) =
     map (\<lambda>kv. (fst kv, g (snd kv))) (Object_entries kvs)"
proof -
  let ?h = "\<lambda>kv :: string \<times> 'b. (fst kv, g (snd kv))"
  let ?f = "\<lambda>kv :: string \<times> 'a. str_nat (fst kv)"
  let ?f' = "\<lambda>kv :: string \<times> 'b. str_nat (fst kv)"
  have ins: "insort_key ?f (?h x) (map ?h xs) = map ?h (insort_key ?f' x xs)" for x xs
    by (induction xs) simp_all
  have srt: "sort_key ?f (map ?h xs) = map ?h (sort_key ?f' xs)" for xs
    by (induction xs) (simp_all add: ins)
  have flt: "filter P' (map ?h xs) = map ?h (filter P xs)"
    if "\<And>kv. P' (?h kv) = P kv" for P P' xs
    using that by (induction xs) simp_all
  show ?thesis
    unfolding Object_entries_def
    by (simp add: srt flt [where P = "\<lambda>kv. is_array_index (fst kv)"]
          flt [where P = "\<lambda>kv. \<not> is_array_index (fst kv)"])
qed


text \<open>
  C9, as stated, fails: a body whose \<open>error\<close> field is the empty string (or \<open>false\<close>,
  \<open>0\<close>, \<open>null\<close>) does not yield that field; \<open>parseError\<close> tests \<open>if (data.error)\<close> and
  goes on to the next rule. Here the \<open>message\<close> field is returned although an \<open>error\<close>
  field is there.
\<close>

theorem parseError_empty_error_counterexample:
  "get_prop empty_error_body ''error'' = Some (JStr [])
   \<and> parseError (failed_with (num 500) empty_error_body) = Inr ''Server down''
   \<and> parseError (failed_with (num 500) empty_error_body) \<noteq> ToString (JStr [])"
  by (simp add: empty_error_body_def failed_with_def parseError_def truthy_prop_def ToString_def)

text \<open>
  C9, amended. For a failed response with status \<open>N\<close> and body \<open>d\<close>, where a field counts
  when its value is truthy, the message is found by the first of these rules that
  applies. A top-level \<open>error\<close> field: its text \<open>String(error)\<close>. An \<open>errors\<close> field
  that is an object or an array: its values (of an object, in the order of
  \<open>Object.values\<close>), flattened one level and joined with \<open>", "\<close>; for a map from field
  names to lists of strings these are all the strings. A top-level \<open>message\<close> field:
  its text; an \<open>errors\<close> field that is neither an object nor an array does not stand in
  its way. Otherwise, and when the response has no body, \<open>Request failed with status N\<close>;
  and \<open>Request failed with status unknown\<close> when there is no response. A value that has
  no text makes the conversion, and with it \<open>parseError\<close>, throw a \<open>TypeError\<close>.
\<close>

theorem parseError_precedence:
  "(truthy_prop d ''error'' = Some v \<longrightarrow> parseError (failed_with N d) = ToString v)
   \<and> (truthy_prop d ''error'' = None \<and> truthy_prop d ''errors'' = Some es \<and> is_object es
        \<longrightarrow> parseError (failed_with N d) = join_values '', '' (flat (object_values es)))
   \<and> (truthy_prop d ''error'' = None
        \<and> get_prop d ''errors'' = Some (JObj (map (\<lambda>kv. (fst kv, JArr (map JStr (snd kv)))) m))
        \<longrightarrow> parseError (failed_with N d) = Inr (join '', '' (concat (map snd (Object_entries m)))))
   \<and> (truthy_prop d ''error'' = None
        \<and> (\<forall>es. truthy_prop d ''errors'' = Some es \<longrightarrow> \<not> is_object es)
        \<and> truthy_prop d ''message'' = Some v
        \<longrightarrow> parseError (failed_with N d) = ToString v)
   \<and> (truthy_prop d ''error'' = None
        \<and> (\<forall>es. truthy_prop d ''errors'' = Some es \<longrightarrow> \<not> is_object es)
        \<and> truthy_prop d ''message'' = None
        \<longrightarrow> parseError (failed_with N d) = Inr (''Request failed with status '' @ number_str N))
   \<and> parseError (AxiosError (Some \<lparr> resp_status = N, resp_data = None \<rparr>)) =
        Inr (''Request failed with status '' @ number_str N)
   \<and> parseError (AxiosError None) = Inr ''Request failed with status unknown''
   \<and> ToString (JStr s) = Inr s
   \<and> ToString (JNum n) = Inr (number_str n)
   \<and> (ToString v = Inl TypeError \<longleftrightarrow> js_String v = None)"
proof -
  have c1: "truthy_prop d ''error'' = Some v \<longrightarrow> parseError (failed_with N d) = ToString v"
    using truthy_prop_truthy [of d "''error''" v] by (simp add: parseError_def failed_with_def)
  have c2: "truthy_prop d ''error'' = None \<and> truthy_prop d ''errors'' = Some es \<and> is_object es
        \<longrightarrow> parseError (failed_with N d) = join_values '', '' (flat (object_values es))"
    using truthy_prop_truthy [of d "''errors''" es] by (simp add: parseError_def failed_with_def)
  have c3: "truthy_prop d ''error'' = None
        \<and> get_prop d ''errors'' = Some (JObj (map (\<lambda>kv. (fst kv, JArr (map JStr (snd kv)))) m))
        \<longrightarrow> parseError (failed_with N d) = Inr (join '', '' (concat (map snd (Object_entries m))))"
  proof
    let ?es = "JObj (map (\<lambda>kv. (fst kv, JArr (map JStr (snd kv)))) m)"
    assume a: "truthy_prop d ''error'' = None \<and> get_prop d ''errors'' = Some ?es"
    then have t: "truthy d"
      using get_prop_truthy by blast
    have e: "truthy_prop d ''errors'' = Some ?es"
      using a by (simp add: truthy_prop_def)
    have "object_values ?es =
        map snd (map (\<lambda>kv. (fst kv, JArr (map JStr (snd kv)))) (Object_entries m))"
      using Object_entries_map [where g = "\<lambda>ms. JArr (map JStr ms)" and kvs = m] by simp
    then have "join_values '', '' (flat (object_values ?es)) =
        Inr (join '', '' (concat (map snd (Object_entries m))))"
      by (simp only: flat_string_lists join_values_strings)
    then show "parseError (failed_with N d) = Inr (join '', '' (concat (map snd (Object_entries m))))"
      using a t e by (simp add: parseError_def failed_with_def)
  qed
  have no_errors: "(case (case truthy_prop d ''errors'' of
                           None \<Rightarrow> None
                         | Some es \<Rightarrow> if is_object es then Some es else None) of
                     Some es \<Rightarrow> A es | None \<Rightarrow> B) = B"
    if "\<forall>es. truthy_prop d ''errors'' = Some es \<longrightarrow> \<not> is_object es" for A :: "jsval \<Rightarrow> js_error + string" and B
    using that by (cases "truthy_prop d ''errors''") simp_all
  have c4: "truthy_prop d ''error'' = None
        \<and> (\<forall>es. truthy_prop d ''errors'' = Some es \<longrightarrow> \<not> is_object es)
        \<and> truthy_prop d ''message'' = Some v
        \<longrightarrow> parseError (failed_with N d) = ToString v"
    using truthy_prop_truthy [of d "''message''" v]
    by (simp add: parseError_def failed_with_def no_errors)
  have c5: "truthy_prop d ''error'' = None
        \<and> (\<forall>es. truthy_prop d ''errors'' = Some es \<longrightarrow> \<not> is_object es)
        \<and> truthy_prop d ''message'' = None
        \<longrightarrow> parseError (failed_with N d) = Inr (''Request failed with status '' @ number_str N)"
    by (simp add: parseError_def failed_with_def no_errors status_fallback_def)
  have c6: "parseError (AxiosError (Some \<lparr> resp_status = N, resp_data = None \<rparr>)) =
        Inr (''Request failed with status '' @ number_str N)
      \<and> parseError (AxiosError None) = Inr ''Request failed with status unknown''"
    by (simp add: parseError_def status_fallback_def)
  have c7: "ToString (JStr s) = Inr s \<and> ToString (JNum n) = Inr (number_str n)
      \<and> (ToString v = Inl TypeError \<longleftrightarrow> js_String v = None)"
    by (simp add: ToString_def split: option.splits)
  show ?thesis
    using c1 c2 c3 c4 c5 c6 c7 by blast
qed

theorem parseError_precedence_witness:
  "parseError (failed_with (num 422) validation_body) = Inr ''taken, bad, short''
   \<and> parseError (failed_with (num 422) (JObj [])) = Inr ''Request failed with status 422''
   \<and> parseError (failed_with (num 400) (JObj [(''errors'', JStr ''bad input''), (''message'', JStr ''Invalid'')]))
       = Inr ''Invalid''"
proof -
  let ?m = "[(''email'', [''taken'', ''bad'']), (''name'', [''short''])]"
  let ?b = "JObj [(''errors'', JStr ''bad input''), (''message'', JStr ''Invalid'')]"
  have n: "number_str (num 422) = ''422''"
    by code_simp
  have oe: "Object_entries ?m = ?m"
    by code_simp
  have e: "truthy_prop validation_body ''error'' = None"
    by (simp add: validation_body_def truthy_prop_def)
  have es: "get_prop validation_body ''errors'' =
      Some (JObj (map (\<lambda>kv. (fst kv, JArr (map JStr (snd kv)))) ?m))"
    by (simp add: validation_body_def)
  have none: "truthy_prop (JObj []) ''error'' = None" "truthy_prop (JObj []) ''errors'' = None"
    "truthy_prop (JObj []) ''message'' = None"
    by (simp_all add: truthy_prop_def)
  have b: "truthy_prop ?b ''error'' = None"
    "\<forall>es. truthy_prop ?b ''errors'' = Some es \<longrightarrow> \<not> is_object es"
    "truthy_prop ?b ''message'' = Some (JStr ''Invalid'')"
    by (auto simp: truthy_prop_def)
  have "parseError (failed_with (num 422) validation_body) =
          Inr (join '', '' (concat (map snd (Object_entries ?m))))"
    using parseError_precedence [of validation_body _ "num 422" _ ?m] e es by blast
  moreover have "parseError (failed_with (num 422) (JObj [])) =
          Inr (''Request failed with status '' @ number_str (num 422))"
    using parseError_precedence [of "JObj []" _ "num 422"] none by simp
  moreover have "parseError (failed_with (num 400) ?b) = ToString (JStr ''Invalid'')"
    using parseError_precedence [of ?b "JStr ''Invalid''" "num 400"] b by blast
  ultimately show ?thesis
    by (simp add: n oe ToString_def)
qed

section \<open>Registration: the required fields\<close>














text \<open>The call as a whole is the run of its parts.\<close>

lemma register_uninterrupted:
  "run rt [\<lparr> a_config = x1, a_registration = out, a_fault = f1 \<rparr>,
           \<lparr> a_config = x2, a_registration = x3, a_fault = f2 \<rparr>, a3]
       (register_call rt (cstate w) P ep w) =
     (Inl (raised (fst (register rt P ep out f1 f2 w))), snd (register rt P ep out f1 f2 w))"
  by (auto simp: register_call_def register_def register_after_api_def register_after_saveKey_def
        register_after_saveData_def raised_def saveBrowserKey_def saveUserData_def setItem_def
        split: sum.splits option.splits)












section \<open>Facts about the example sessions\<close>








section \<open>Loading messages\<close>





section \<open>Dispatch to subscribers\<close>

lemma forEach_characterisation:
  assumes inv: "\<And>cb w. invoked (snd (invoke cb w)) = invoked w @ cb_ids [cb]"
    and thr: "\<And>cb w. (fst (invoke cb w) = None) = (\<not> cb_throws a cb)"
  shows "invoked (snd (forEach_cb invoke cbs w)) = invoked w @ cb_ids (up_to_first_throw a cbs)
    \<and> ((fst (forEach_cb invoke cbs w) = None) = (\<not> list_ex (cb_throws a) cbs))"
proof (induction cbs arbitrary: w)
  case Nil
  then show ?case by (simp add: cb_ids_def)
next
  case (Cons cb cbs)
  obtain r w1 where step: "invoke cb w = (r, w1)" by (cases "invoke cb w")
  have i1: "invoked w1 = invoked w @ cb_ids [cb]" using inv [of cb w] step by simp
  have t1: "(r = None) = (\<not> cb_throws a cb)" using thr [of cb w] step by simp
  show ?case
  proof (cases r)
    case None
    then show ?thesis
      using step i1 t1 Cons.IH [of w1] by (simp add: cb_ids_def)
  next
    case (Some e)
    then show ?thesis
      using step i1 t1 by (simp add: cb_ids_def)
  qed
qed

lemma invoke_connection_log:
  "invoked (snd (invoke_connection c cb w)) = invoked w @ cb_ids [cb]"
  "(fst (invoke_connection c cb w) = None) = (\<not> cb_throws c cb)"
  by (cases cb; simp add: call_user_def cb_ids_def cb_throws_def)+

lemma invoke_message_log:
  "invoked (snd (invoke_message m cb w)) = invoked w @ cb_ids [cb]"
  "(fst (invoke_message m cb w) = None) = (\<not> cb_throws m cb)"
  by (cases cb; simp add: call_user_def cb_ids_def cb_throws_def)+

lemma invoke_typing_log:
  "invoked (snd (invoke_typing t cb w)) = invoked w @ cb_ids [cb]"
  "(fst (invoke_typing t cb w) = None) = (\<not> cb_throws t cb)"
  by (cases cb; simp add: call_user_def cb_ids_def cb_throws_def)+

lemma invoke_browserKey_log:
  "invoked (snd (invoke_browserKey fault key cb w)) = invoked w @ cb_ids [cb]"
  "(fst (invoke_browserKey fault key cb w) = None) = (\<not> cb_throws key cb)"
  by (cases cb; simp add: call_user_def cb_ids_def cb_throws_def)+

lemma subscribed_callbacks:
  "typingCallbacks (sock subscribed_session) = [throwing_cb, quiet_cb]"
  "invoked subscribed_session = []"
  by (simp_all add: subscribed_session_def onTyping_def mounted_session_def mount_def
        fresh_session_def new_socket_service_def set_add_def throwing_cb_def quiet_cb_def)

lemma quiet_first_callbacks:
  "typingCallbacks (sock quiet_first_session) = [quiet_cb, throwing_cb]"
  "invoked quiet_first_session = []"
  by (simp_all add: quiet_first_session_def onTyping_def mounted_session_def mount_def
        fresh_session_def new_socket_service_def set_add_def throwing_cb_def quiet_cb_def)

text \<open>
  C7, as stated, fails: the notify functions are a bare \<open>forEach\<close>, with no \<open>try\<close> around
  the call of a callback. With the subscribers \<open>[throwing_cb, quiet_cb]\<close> on typing events,
  the dispatch ends with the exception of the first and the second (number 2) is never
  called.
\<close>

theorem notify_throwing_callback_counterexample:
  "typingCallbacks (sock subscribed_session) = [throwing_cb, quiet_cb]
   \<and> fst (notifyTyping True subscribed_session) = Some (NativeError ''boom'')
   \<and> invoked (snd (notifyTyping True subscribed_session)) = [1]"
  by (simp add: subscribed_callbacks notifyTyping_def throwing_cb_def quiet_cb_def call_user_def)

text \<open>
  C7, amended. For every dispatch to a subscriber category (connection, message, typing,
  identity update) and every set of registered callbacks: the callbacks are called in
  registration order up to and including the first one that throws, and none after it;
  the dispatch throws exactly when some callback does; so when no callback throws, all
  of them are called.
\<close>

theorem notify_stops_at_first_throw:
  "invoked (snd (notifyConnectionChange c w)) =
      invoked w @ cb_ids (up_to_first_throw c (connectionCallbacks (sock w)))
   \<and> (fst (notifyConnectionChange c w) = None) = (\<not> list_ex (cb_throws c) (connectionCallbacks (sock w)))
   \<and> invoked (snd (notifyMessage m w)) =
      invoked w @ cb_ids (up_to_first_throw m (messageCallbacks (sock w)))
   \<and> (fst (notifyMessage m w) = None) = (\<not> list_ex (cb_throws m) (messageCallbacks (sock w)))
   \<and> invoked (snd (notifyTyping t w)) =
      invoked w @ cb_ids (up_to_first_throw t (typingCallbacks (sock w)))
   \<and> (fst (notifyTyping t w) = None) = (\<not> list_ex (cb_throws t) (typingCallbacks (sock w)))
   \<and> invoked (snd (notifyBrowserKeyUpdate fault key w)) =
      invoked w @ cb_ids (up_to_first_throw key (browserKeyCallbacks (sock w)))
   \<and> (fst (notifyBrowserKeyUpdate fault key w) = None) = (\<not> list_ex (cb_throws key) (browserKeyCallbacks (sock w)))"
  unfolding notifyConnectionChange_def notifyMessage_def notifyTyping_def notifyBrowserKeyUpdate_def
  using forEach_characterisation [of "invoke_connection c" c, OF invoke_connection_log]
    forEach_characterisation [of "invoke_message m" m, OF invoke_message_log]
    forEach_characterisation [of "invoke_typing t" t, OF invoke_typing_log]
    forEach_characterisation [of "invoke_browserKey fault key" key, OF invoke_browserKey_log]
  by simp

theorem notify_stops_at_first_throw_witness:
  "invoked (snd (notifyTyping True quiet_first_session)) = [2, 1]
   \<and> fst (notifyTyping True quiet_first_session) \<noteq> None"
  using notify_stops_at_first_throw [of _ quiet_first_session _ True]
  by (simp add: quiet_first_callbacks cb_ids_def cb_throws_def throwing_cb_def quiet_cb_def)


section \<open>Reset\<close>



















text \<open>\<open>reset\<close>, by what its two steps did.\<close>

lemma reset_unmounted:
  "\<not> s_mounted w \<Longrightarrow>
     reset r1 r2 w =
       (Inr (), w\<lparr> cstate := (cstate w)\<lparr> isRegistered := False, browserKey := None,
                                       chatId := None \<rparr> \<rparr>)"
  by (simp add: reset_def)

lemma reset_mounted:
  assumes "s_mounted w" and "clearAll r1 r2 (s_appKey w) (storage w) = (c, st)"
    and "socket_disconnect (w\<lparr> storage := st \<rparr>) = (d, w0)"
  shows "reset r1 r2 w =
     (case c of
        Inl e \<Rightarrow> (Inl e, w\<lparr> storage := st \<rparr>)
      | Inr u \<Rightarrow>
          (case d of
             Some e \<Rightarrow> (Inl e, w0)
           | None \<Rightarrow>
               (Inr (), w0\<lparr> cstate := (cstate w0)\<lparr> isRegistered := False, browserKey := None,
                                                 chatId := None \<rparr> \<rparr>)))"
  using assms by (cases c; cases d) (simp_all add: reset_def)






text \<open>The call as a whole is the run of its parts.\<close>

lemma reset_uninterrupted:
  "run rt [a1] (reset_call r1 r2 w) =
     (Inl (raised (fst (reset r1 r2 w))), snd (reset r1 r2 w))"
proof (cases "s_mounted w")
  case False
  then show ?thesis
    by (simp add: reset_call_def reset_publish_def reset_unmounted raised_def)
next
  case True
  obtain c st where c: "clearAll r1 r2 (s_appKey w) (storage w) = (c, st)"
    by (cases "clearAll r1 r2 (s_appKey w) (storage w)")
  obtain d w0 where d: "socket_disconnect (w\<lparr> storage := st \<rparr>) = (d, w0)"
    by (cases "socket_disconnect (w\<lparr> storage := st \<rparr>)")
  show ?thesis
    unfolding reset_mounted [OF True c d]
    using True c d
    by (cases c; cases d)
       (simp_all add: reset_call_def reset_after_clear_def reset_publish_def raised_def)
qed





section \<open>The invariant of the session state\<close>











lemma pending_reset_publish: "pending (fst (reset_publish dw)) = []"
  by (cases dw; cases "fst dw") (simp_all add: reset_publish_def)







lemma resume_second:
  assumes "interleaved ok w (t0 # t # post)" and "admissible ok t w" and "resume rt a t w = (p, w')"
  shows "interleaved ok w' (t0 # pending p @ post)"
  using i_resume [of ok w "[t0]" t post rt a p w'] assms by simp





text \<open>
  Calls that run one after the other, each to its end before the next one starts and
  each through a closure that holds the current state, are among the schedules with
  stable reads: nothing runs between the two reads of an \<open>initialize\<close>.
\<close>

lemma start_admissible:
  "case fst (start rt c w) of
     Inl r \<Rightarrow> True
   | Inr t \<Rightarrow> admissible stable_read t (snd (start rt c w))"
  by (cases c)
     (auto simp: initialize_call_def register_call_def updateBrowser_call_def reset_call_def
        reset_publish_def split: sum.splits option.splits prod.splits)

lemma resume_admissible:
  "case fst (resume rt a t w) of
     Inl r \<Rightarrow> True
   | Inr t' \<Rightarrow> admissible stable_read t' (snd (resume rt a t w))"
proof (cases t)
  case InitConfig
  then show ?thesis
    by (cases "a_fault a")
       (auto simp: initialize_after_config_def initialize_catch_def getBrowserKey_def getItem_def
          stable_read_def split: sum.splits)
next
  case (InitKey rc answer)
  then show ?thesis
    by (auto simp: initialize_after_key_def initialize_catch_def split: sum.splits)
next
  case (InitRegistered rc bk answer)
  then show ?thesis
    by (auto simp: initialize_after_registered_def initialize_catch_def split: sum.splits)
next
  case (RegApi userData endpoint)
  then show ?thesis
    by (auto simp: register_after_api_def split: sum.splits prod.splits)
next
  case (RegSaveKey userData response answer)
  then show ?thesis
    by (auto simp: register_after_saveKey_def split: sum.splits prod.splits)
next
  case (RegSaveData response answer)
  then show ?thesis
    by (auto simp: register_after_saveData_def split: sum.splits)
next
  case (UpdApi userData)
  then show ?thesis
    by (auto simp: updateBrowser_after_api_def split: sum.splits prod.splits)
next
  case (UpdSave response answer)
  then show ?thesis
    by (auto simp: updateBrowser_after_save_def split: sum.splits)
next
  case (ResetClear answer)
  then show ?thesis
    using pending_reset_publish [of "socket_disconnect w"]
    by (cases "fst (reset_publish (socket_disconnect w))")
       (auto simp: reset_after_clear_def split: sum.splits)
qed

lemma interleaved_run:
  assumes "interleaved stable_read w (ts @ pending p)"
    and "case p of Inl r \<Rightarrow> True | Inr t \<Rightarrow> admissible stable_read t w"
  shows "interleaved stable_read (snd (run rt as (p, w))) (ts @ pending (fst (run rt as (p, w))))"
  using assms
proof (induction as arbitrary: p w)
  case Nil
  then show ?case by simp
next
  case (Cons a as)
  show ?case
  proof (cases p)
    case (Inl r)
    then show ?thesis
      using Cons.prems by simp
  next
    case (Inr t)
    obtain p' w' where r: "resume rt a t w = (p', w')" by (cases "resume rt a t w")
    have "interleaved stable_read w' (ts @ pending p' @ [])"
      using i_resume [of stable_read w ts t "[]" rt a p' w'] Cons.prems Inr r by simp
    moreover have "case p' of Inl r \<Rightarrow> True | Inr t' \<Rightarrow> admissible stable_read t' w'"
      by (rule resume_admissible [of rt a t w, unfolded r fst_conv snd_conv])
    ultimately show ?thesis
      using Cons.IH [of w' p'] Inr r by simp
  qed
qed

lemma interleaved_call_run:
  assumes "interleaved stable_read w ts"
  shows "interleaved stable_read (snd (run rt as (start rt c w)))
           (ts @ pending (fst (run rt as (start rt c w))))"
proof -
  obtain p w' where s: "start rt c w = (p, w')" by (cases "start rt c w")
  have "interleaved stable_read w' (ts @ pending p)"
    using i_call [OF assms s] .
  moreover have "case p of Inl r \<Rightarrow> True | Inr t \<Rightarrow> admissible stable_read t w'"
    by (rule start_admissible [of rt c w, unfolded s fst_conv snd_conv])
  ultimately show ?thesis
    using interleaved_run [of w' ts p rt as] s by simp
qed

lemma updateBrowser_uninterrupted:
  "run rt [\<lparr> a_config = x1, a_registration = out, a_fault = f \<rparr>, a2]
       (updateBrowser_call (cstate w) P w) =
     (Inl (raised (fst (updateBrowser rt P out f w))), snd (updateBrowser rt P out f w))"
  by (auto simp: updateBrowser_call_def updateBrowser_def updateBrowser_after_api_def
        updateBrowser_after_save_def raised_def saveUserData_def setItem_def Let_def
        split: sum.splits option.splits)

lemma serial_initialize:
  assumes "interleaved stable_read w ts"
  shows "interleaved stable_read (snd (initialize cfg g1 g2 w)) ts"
  using interleaved_call_run [OF assms, of demo_runtime
      "[\<lparr> a_config = cfg, a_registration = Inr registration_ok, a_fault = g1 \<rparr>,
        \<lparr> a_config = cfg, a_registration = Inr registration_ok, a_fault = g2 \<rparr>, steady]"
      "Initialize (isInitialized (cstate w))"]
  by (simp add: initialize_uninterrupted)

lemma serial_register:
  assumes "interleaved stable_read w ts"
  shows "interleaved stable_read (snd (register rt P ep out f1 f2 w)) ts"
  using interleaved_call_run [OF assms, of rt
      "[\<lparr> a_config = Inr active_config, a_registration = out, a_fault = f1 \<rparr>,
        \<lparr> a_config = Inr active_config, a_registration = out, a_fault = f2 \<rparr>, steady]"
      "Register (cstate w) P ep"]
  by (simp add: register_uninterrupted)

lemma serial_updateBrowser:
  assumes "interleaved stable_read w ts"
  shows "interleaved stable_read (snd (updateBrowser rt P out f w)) ts"
  using interleaved_call_run [OF assms, of rt
      "[\<lparr> a_config = Inr active_config, a_registration = out, a_fault = f \<rparr>, steady]"
      "UpdateBrowser (cstate w) P"]
  by (simp add: updateBrowser_uninterrupted)

lemma serial_reset:
  assumes "interleaved stable_read w ts"
  shows "interleaved stable_read (snd (reset r1 r2 w)) ts"
  using interleaved_call_run [OF assms, of demo_runtime "[steady]" "Reset r1 r2"]
  by (simp add: reset_uninterrupted)









end
